theory Spec2Isabelle
  imports Complex_Main "HOL-Library.AList" "HOL-Library.Multiset"
    "HOL-Library.Char_ord" "HOL-Library.List_Lexorder"
begin

section \<open>Token scoring: holder concentration and unique EOA activity\<close>

text \<open>
  A shallow embedding of \<^verbatim>\<open>scoring/holder_analysis.py\<close>,
  \<^verbatim>\<open>scoring/unique_eoa.py\<close> and \<^verbatim>\<open>blockchain/contract_reader.py\<close>.
  Python's unbounded integers are \<^typ>\<open>int\<close>. Python's floats are modelled as
  \<^typ>\<open>real\<close>, that is with exact arithmetic: the constants of the scoring tables
  (0.75, 0.375, 20, 250, ...) are exactly representable, and no statement below is
  about rounding error of the binary representation. Exceptions are values: a
  computation that can raise returns \<open>exn + 'a\<close>, with \<open>Inl\<close> the exception.
\<close>

subsection \<open>Concentration score and risk tier (HolderAnalyzer)\<close>

text \<open>\<^verbatim>\<open>HolderAnalyzer._calculate_score\<close>, with its nested test for 80 in the last branch.\<close>

definition holder_calculate_score :: "real \<Rightarrow> real" where
  "holder_calculate_score top10_percentage =
     (if top10_percentage \<le> 20 then 30
      else if top10_percentage \<le> 40 then 30 - (top10_percentage - 20) * 0.75
      else (if top10_percentage \<ge> 80 then 0
            else 15 - (top10_percentage - 40) * 0.375))"

text \<open>\<^verbatim>\<open>HolderAnalyzer._determine_risk_level\<close>.\<close>

definition determine_risk_level :: "real \<Rightarrow> string" where
  "determine_risk_level top10_percentage =
     (if top10_percentage \<le> 20 then ''low_risk''
      else if top10_percentage \<le> 40 then ''medium_risk''
      else if top10_percentage \<le> 60 then ''high_risk''
      else ''extreme_risk'')"

lemma holder_score_lipschitz:
  "\<bar>holder_calculate_score p - holder_calculate_score q\<bar> \<le> \<bar>p - q\<bar>"
  unfolding holder_calculate_score_def
  by (auto split: if_splits simp: abs_if field_simps)

lemma holder_score_isCont: "isCont holder_calculate_score a"
  unfolding isCont_def
proof (rule LIM_I)
  fix r :: real assume "0 < r"
  have "\<forall>x. x \<noteq> a \<and> norm (x - a) < r \<longrightarrow>
          norm (holder_calculate_score x - holder_calculate_score a) < r"
    using holder_score_lipschitz [of _ a] by (auto intro: le_less_trans)
  with \<open>0 < r\<close> show "\<exists>s>0. \<forall>x. x \<noteq> a \<and> norm (x - a) < s \<longrightarrow>
          norm (holder_calculate_score x - holder_calculate_score a) < r"
    by blast
qed

lemma holder_score_continuous: "continuous_on UNIV holder_calculate_score"
  by (simp add: continuous_at_imp_continuous_on holder_score_isCont)

lemma holder_score_antimono: "antimono holder_calculate_score"
proof (rule antimonoI)
  fix x y :: real assume "x \<le> y"
  then show "holder_calculate_score y \<le> holder_calculate_score x"
    unfolding holder_calculate_score_def
    by (auto split: if_splits simp: field_simps)
qed

lemma holder_score_range:
  "0 \<le> holder_calculate_score p \<and> holder_calculate_score p \<le> 30"
  unfolding holder_calculate_score_def
  by (auto split: if_splits simp: field_simps)

text \<open>
  Claim C1. For every top-10 percentage \<open>p\<close> the concentration score is the
  piecewise-linear table of the specification: 30 up to 20, then
  \<open>30 - (p - 20) * 0.75\<close> up to 40, then \<open>15 - (p - 40) * 0.375\<close> below 80, and 0
  from 80 on. It is exactly 30 at 20, exactly 15 at 40 and exactly 0 from 80 on; it is
  continuous and non-increasing on the whole line and always lies between 0 and 30.
\<close>

theorem holder_score_table:
  "holder_calculate_score p =
     (if p \<le> 20 then 30 else if p \<le> 40 then 30 - (p - 20) * 0.75
      else if p < 80 then 15 - (p - 40) * 0.375 else 0)
   \<and> holder_calculate_score 20 = 30 \<and> holder_calculate_score 40 = 15
   \<and> (80 \<le> p \<longrightarrow> holder_calculate_score p = 0)
   \<and> continuous_on UNIV holder_calculate_score
   \<and> antimono holder_calculate_score
   \<and> 0 \<le> holder_calculate_score p \<and> holder_calculate_score p \<le> 30"
proof -
  have "holder_calculate_score p =
     (if p \<le> 20 then 30 else if p \<le> 40 then 30 - (p - 20) * 0.75
      else if p < 80 then 15 - (p - 40) * 0.375 else 0)"
    by (simp add: holder_calculate_score_def)
  moreover have "holder_calculate_score 20 = 30" "holder_calculate_score 40 = 15"
    "80 \<le> p \<longrightarrow> holder_calculate_score p = 0"
    by (simp_all add: holder_calculate_score_def)
  ultimately show ?thesis
    using holder_score_continuous holder_score_antimono holder_score_range [of p] by blast
qed

theorem holder_score_table_witness:
  "(80::real) \<le> 85 \<and> holder_calculate_score 85 = 0
   \<and> holder_calculate_score 25 = 26.25 \<and> holder_calculate_score 60 = 7.5"
  using holder_score_table [of 85] holder_score_table [of 25] holder_score_table [of 60]
  by simp

text \<open>
  Claim C5. The risk tier is low for \<open>p \<le> 20\<close>, medium for \<open>20 < p \<le> 40\<close>, high for
  \<open>40 < p \<le> 60\<close> and extreme above 60; each boundary belongs to the tier on its
  left: 20 is low, 20.0001 medium, 60 high and 60.0001 extreme.
\<close>

theorem risk_tier_table:
  "determine_risk_level p =
     (if p \<le> 20 then ''low_risk'' else if p \<le> 40 then ''medium_risk''
      else if p \<le> 60 then ''high_risk'' else ''extreme_risk'')
   \<and> determine_risk_level 20 = ''low_risk''
   \<and> determine_risk_level 20.0001 = ''medium_risk''
   \<and> determine_risk_level 60 = ''high_risk''
   \<and> determine_risk_level 60.0001 = ''extreme_risk''"
  by (simp add: determine_risk_level_def)

subsection \<open>Activity score (UniqueEOAAnalyzer)\<close>

text \<open>
  An exception is the value it would be raised with: division by zero, the overflow of
  a true division of integers, or any other exception, carried with the text that
  \<^verbatim>\<open>str(e)\<close> gives.
\<close>

datatype exn = ZeroDivisionError | OverflowError | Exception string

text \<open>
  \<^verbatim>\<open>round(x, 2)\<close> returns a hundredth nearest to \<open>x\<close>. Python rounds the binary
  floating-point value of \<open>x\<close>, so when \<open>x\<close> is exactly half way between two
  hundredths the result depends on the representation error (\<^verbatim>\<open>round(0.025, 2)\<close> is
  0.03 and \<^verbatim>\<open>round(0.015, 2)\<close> is 0.01). The model leaves that open: the results
  that \<^verbatim>\<open>round(x, 2)\<close> may have are both neighbours at a tie, and the one nearest
  hundredth otherwise.
\<close>

definition nearest_hundredths :: "real \<Rightarrow> real set" where
  "nearest_hundredths x =
     (let f = \<lfloor>x * 100\<rfloor>; d = x * 100 - of_int f
      in (if d \<le> 1/2 then {of_int f / 100} else {})
         \<union> (if 1/2 \<le> d then {of_int (f + 1) / 100} else {}))"

text \<open>
  \<^verbatim>\<open>UniqueEOAAnalyzer._calculate_score\<close>, as the set of the results a call may have.
  The true division raises for a window of 0 hours, and for a quotient that rounds
  beyond the largest float; the score of every branch goes through
  \<^verbatim>\<open>round(score, 2)\<close>.
\<close>

definition eoa_calculate_score :: "int \<Rightarrow> int \<Rightarrow> (exn + real \<times> string) set" where
  "eoa_calculate_score unique_eoa_count time_window_hours =
     (if time_window_hours = 0 then {Inl ZeroDivisionError}
      else
        let normalized_count = of_int unique_eoa_count / of_int time_window_hours
        in if \<bar>normalized_count\<bar> \<ge> 2 ^ 1024 - 2 ^ 970 then {Inl OverflowError}
           else if normalized_count \<ge> 300
             then (\<lambda>score. Inr (score, ''low_risk'')) ` nearest_hundredths 40
           else if normalized_count \<ge> 50
             then (\<lambda>score. Inr (score, ''medium_risk''))
                    ` nearest_hundredths (20 + (normalized_count - 50) / 250 * 20)
           else (\<lambda>score. Inr (score, ''high_risk''))
                  ` nearest_hundredths ((normalized_count / 50) * 20))"

text \<open>
  The table of the specification, in its words and without rounding, for comparison
  with the code: 40 from 300 on, \<open>20 + (n - 50) / 250 * 20\<close> from 50 on, and
  \<open>(n / 50) * 20\<close> below 50; and the risk level that goes with each row.
\<close>

definition activity_table :: "real \<Rightarrow> real" where
  "activity_table n =
     (if 300 \<le> n then 40 else if 50 \<le> n then 20 + (n - 50) / 250 * 20 else (n / 50) * 20)"

definition activity_risk :: "real \<Rightarrow> string" where
  "activity_risk n =
     (if 300 \<le> n then ''low_risk'' else if 50 \<le> n then ''medium_risk'' else ''high_risk'')"

abbreviation normalized :: "int \<Rightarrow> int \<Rightarrow> real" where
  "normalized e h \<equiv> real_of_int e / real_of_int h"

lemma nearest_hundredths_cases:
  "r \<in> nearest_hundredths x \<longleftrightarrow>
     r = of_int \<lfloor>x * 100\<rfloor> / 100 \<and> x * 100 - of_int \<lfloor>x * 100\<rfloor> \<le> 1/2
     \<or> r = of_int (\<lfloor>x * 100\<rfloor> + 1) / 100 \<and> 1/2 \<le> x * 100 - of_int \<lfloor>x * 100\<rfloor>"
  unfolding nearest_hundredths_def Let_def by (auto split: if_splits)

lemma nearest_hundredths_iff:
  "r \<in> nearest_hundredths x \<longleftrightarrow>
     (\<exists>k::int. r = of_int k / 100 \<and> \<bar>of_int k - x * 100\<bar> \<le> 1/2)"
proof
  assume "r \<in> nearest_hundredths x"
  then consider
      "r = of_int \<lfloor>x * 100\<rfloor> / 100" "x * 100 - of_int \<lfloor>x * 100\<rfloor> \<le> 1/2"
    | "r = of_int (\<lfloor>x * 100\<rfloor> + 1) / 100" "1/2 \<le> x * 100 - of_int \<lfloor>x * 100\<rfloor>"
    unfolding nearest_hundredths_cases by blast
  then show "\<exists>k::int. r = of_int k / 100 \<and> \<bar>of_int k - x * 100\<bar> \<le> 1/2"
  proof cases
    case 1
    have "\<bar>of_int \<lfloor>x * 100\<rfloor> - x * 100\<bar> \<le> 1/2" using 1(2) by linarith
    with 1(1) show ?thesis by blast
  next
    case 2
    have "\<bar>of_int (\<lfloor>x * 100\<rfloor> + 1) - x * 100\<bar> \<le> 1/2" using 2(2) by simp
    with 2(1) show ?thesis by blast
  qed
next
  assume "\<exists>k::int. r = of_int k / 100 \<and> \<bar>of_int k - x * 100\<bar> \<le> 1/2"
  then obtain k :: int where k: "r = of_int k / 100" "\<bar>of_int k - x * 100\<bar> \<le> 1/2" by blast
  have "k = \<lfloor>x * 100\<rfloor> \<or> k = \<lfloor>x * 100\<rfloor> + 1" using k(2) by linarith
  then show "r \<in> nearest_hundredths x"
    using k unfolding nearest_hundredths_cases by (auto simp: abs_if split: if_splits)
qed

lemma nearest_hundredths_nonempty: "nearest_hundredths x \<noteq> {}"
  unfolding nearest_hundredths_def Let_def by auto

lemma nearest_hundredths_near: "r \<in> nearest_hundredths x \<Longrightarrow> \<bar>r - x\<bar> \<le> 1 / 200"
  by (auto simp: nearest_hundredths_iff abs_if split: if_splits)

lemma nearest_hundredths_of_int [simp]: "nearest_hundredths (of_int k) = {of_int k}"
proof -
  have "\<lfloor>real_of_int k * 100\<rfloor> = k * 100"
    by (metis floor_of_int of_int_mult of_int_numeral)
  then show ?thesis by (simp add: nearest_hundredths_def Let_def)
qed

lemma nearest_hundredths_numeral [simp]:
  "nearest_hundredths 40 = {40}" "nearest_hundredths 20 = {20}" "nearest_hundredths 0 = {0}"
  using nearest_hundredths_of_int [of 40] nearest_hundredths_of_int [of 20]
    nearest_hundredths_of_int [of 0] by simp_all

lemma nearest_hundredths_mono:
  assumes "x \<le> y" "r \<in> nearest_hundredths x" "r' \<in> nearest_hundredths y"
    and "x = y \<longrightarrow> r = r'"
  shows "r \<le> r'"
proof (cases "x = y")
  case True with assms show ?thesis by simp
next
  case False
  with assms have "x < y" by simp
  obtain k k' :: int where k: "r = of_int k / 100" "\<bar>of_int k - x * 100\<bar> \<le> 1/2"
    and k': "r' = of_int k' / 100" "\<bar>of_int k' - y * 100\<bar> \<le> 1/2"
    using assms(2,3) unfolding nearest_hundredths_iff by blast
  have "real_of_int k - real_of_int k' < 1" using k(2) k'(2) \<open>x < y\<close> by linarith
  then have "k \<le> k'" by linarith
  then show ?thesis using k(1) k'(1) by simp
qed

lemma activity_table_mono: "n \<le> n' \<Longrightarrow> activity_table n \<le> activity_table n'"
  unfolding activity_table_def by (auto split: if_splits simp: field_simps)

lemma activity_table_range: "0 \<le> n \<Longrightarrow> 0 \<le> activity_table n \<and> activity_table n \<le> 40"
  unfolding activity_table_def by (auto split: if_splits simp: field_simps)

lemma eoa_calculate_score_eq:
  "h \<noteq> 0 \<Longrightarrow> \<bar>normalized e h\<bar> < 2 ^ 1024 - 2 ^ 970 \<Longrightarrow>
   eoa_calculate_score e h =
     (\<lambda>score. Inr (score, activity_risk (normalized e h)))
       ` nearest_hundredths (activity_table (normalized e h))"
  by (simp add: eoa_calculate_score_def activity_table_def activity_risk_def Let_def
      del: nearest_hundredths_numeral)

lemma activity_table_plateau:
  "n < n' \<Longrightarrow> activity_table n = activity_table n' \<Longrightarrow>
   activity_table n = 40 \<and> activity_table n' = 40"
  unfolding activity_table_def by (auto split: if_splits simp: field_simps)

lemma nearest_hundredths_range:
  assumes "0 \<le> x" "x \<le> 40" "r \<in> nearest_hundredths x"
  shows "0 \<le> r \<and> r \<le> 40"
proof -
  have "x = 0 \<longrightarrow> 0 = r" "x = 40 \<longrightarrow> r = 40"
    using assms(3) by auto
  then have "0 \<le> r" "r \<le> 40"
    using nearest_hundredths_mono [of 0 x 0 r] nearest_hundredths_mono [of x 40 r 40] assms
    by simp_all
  then show ?thesis by simp
qed

text \<open>
  Claim C2, as the specification states it, fails: the returned score is not the value
  of the table but that value rounded to two decimals. For 1 unique EOA in a window of
  3 hours the normalized count is \<open>1/3\<close>, the table gives \<open>2/15\<close>, and the only result
  of the code is 0.13.
\<close>

theorem eoa_score_unrounded_counterexample:
  "(0::int) \<le> 1 \<and> (0::int) < 3 \<and> normalized 1 3 < 50
   \<and> eoa_calculate_score 1 3 = {Inr (0.13, ''high_risk'')}
   \<and> Inr ((normalized 1 3 / 50) * 20, ''high_risk'') \<notin> eoa_calculate_score 1 3"
  by (simp add: eoa_calculate_score_def nearest_hundredths_def Let_def)

text \<open>
  Claim C2, amended. For every count \<open>e \<ge> 0\<close> and window \<open>h > 0\<close> whose quotient
  \<open>n = e / h\<close> a float can hold, the function returns, and what it returns is the
  table's score rounded to two decimals, a hundredth nearest to the table's value and
  so within 0.005 of it, with risk level low for \<open>n \<ge> 300\<close>, medium for
  \<open>50 \<le> n < 300\<close> and high for \<open>n < 50\<close>. The score is exactly 40 at \<open>n = 300\<close>,
  exactly 20 at \<open>n = 50\<close> and exactly 0 at \<open>n = 0\<close>, lies in \<open>[0, 40]\<close>, and is
  non-decreasing in \<open>n\<close>: a larger normalized count never has a smaller score.
\<close>

theorem eoa_score_rounded_table:
  assumes "0 \<le> e" "0 < h" "normalized e h < 2 ^ 1024 - 2 ^ 970"
    and "0 \<le> e'" "0 < h'" "normalized e' h' < 2 ^ 1024 - 2 ^ 970"
  shows "eoa_calculate_score e h \<noteq> {}
       \<and> (\<forall>res \<in> eoa_calculate_score e h. \<exists>s.
             res = Inr (s, activity_risk (normalized e h))
           \<and> s \<in> nearest_hundredths (activity_table (normalized e h))
           \<and> (\<exists>k::int. s = of_int k / 100)
           \<and> \<bar>s - activity_table (normalized e h)\<bar> \<le> 1 / 200
           \<and> (normalized e h = 300 \<longrightarrow> s = 40)
           \<and> (normalized e h = 50 \<longrightarrow> s = 20)
           \<and> (normalized e h = 0 \<longrightarrow> s = 0)
           \<and> 0 \<le> s \<and> s \<le> 40
           \<and> (\<forall>res' \<in> eoa_calculate_score e' h'. \<exists>s'.
                 res' = Inr (s', activity_risk (normalized e' h'))
               \<and> (normalized e h < normalized e' h' \<longrightarrow> s \<le> s')))"
proof -
  let ?n = "normalized e h" and ?n' = "normalized e' h'"
  from assms have n0: "0 \<le> ?n" "0 \<le> ?n'" by simp_all
  from assms n0 have eq: "eoa_calculate_score e h
      = (\<lambda>score. Inr (score, activity_risk ?n)) ` nearest_hundredths (activity_table ?n)"
    and eq': "eoa_calculate_score e' h'
      = (\<lambda>score. Inr (score, activity_risk ?n')) ` nearest_hundredths (activity_table ?n')"
    by (simp_all add: eoa_calculate_score_eq)
  have ne: "eoa_calculate_score e h \<noteq> {}"
    unfolding eq by (simp add: nearest_hundredths_nonempty)
  have main: "\<exists>k::int. s = of_int k / 100" "\<bar>s - activity_table ?n\<bar> \<le> 1 / 200"
      "?n = 300 \<longrightarrow> s = 40" "?n = 50 \<longrightarrow> s = 20" "?n = 0 \<longrightarrow> s = 0" "0 \<le> s \<and> s \<le> 40"
      "\<forall>s' \<in> nearest_hundredths (activity_table ?n'). ?n < ?n' \<longrightarrow> s \<le> s'"
    if s: "s \<in> nearest_hundredths (activity_table ?n)" for s
  proof -
    show "\<exists>k::int. s = of_int k / 100" using s unfolding nearest_hundredths_iff by blast
    show "\<bar>s - activity_table ?n\<bar> \<le> 1 / 200" using s by (rule nearest_hundredths_near)
    show "?n = 300 \<longrightarrow> s = 40" "?n = 50 \<longrightarrow> s = 20" "?n = 0 \<longrightarrow> s = 0"
      using s by (auto simp: activity_table_def)
    show "0 \<le> s \<and> s \<le> 40"
      using activity_table_range [OF n0(1)] s by (intro nearest_hundredths_range) auto
    show "\<forall>s' \<in> nearest_hundredths (activity_table ?n'). ?n < ?n' \<longrightarrow> s \<le> s'"
    proof (intro ballI impI)
      fix s' assume s': "s' \<in> nearest_hundredths (activity_table ?n')" and lt: "?n < ?n'"
      have le: "activity_table ?n \<le> activity_table ?n'"
        using lt by (intro activity_table_mono) simp
      have "s = s'" if "activity_table ?n = activity_table ?n'"
      proof -
        from activity_table_plateau [OF lt that]
        have "activity_table ?n = 40" "activity_table ?n' = 40" by simp_all
        with s s' show ?thesis by simp
      qed
      then show "s \<le> s'" using nearest_hundredths_mono [OF le s s'] by blast
    qed
  qed
  show ?thesis
    using ne main unfolding eq eq' by (auto simp del: nearest_hundredths_numeral)
qed

theorem eoa_score_rounded_table_witness:
  "eoa_calculate_score 151 3 = {Inr (20.03, ''medium_risk'')}
   \<and> eoa_calculate_score 900 3 = {Inr (40, ''low_risk'')}
   \<and> normalized 151 3 < normalized 900 3
   \<and> \<bar>20.03 - activity_table (normalized 151 3)\<bar> \<le> 1 / 200"
proof -
  have v: "eoa_calculate_score 151 3 = {Inr (20.03, ''medium_risk'')}"
      "eoa_calculate_score 900 3 = {Inr (40, ''low_risk'')}"
    by (simp_all add: eoa_calculate_score_def nearest_hundredths_def Let_def)
  have h: "(0::int) \<le> 151" "(0::int) < 3" "normalized 151 3 < 2 ^ 1024 - 2 ^ 970"
      "(0::int) \<le> 900" "(0::int) < 3" "normalized 900 3 < 2 ^ 1024 - 2 ^ 970"
    by simp_all
  have "Inr (20.03, ''medium_risk'') \<in> eoa_calculate_score 151 3" by (simp only: v) simp
  with eoa_score_rounded_table [OF h] obtain s :: real
    where s: "Inr (20.03, ''medium_risk'') = Inr (s, activity_risk (normalized 151 3))"
      "\<bar>s - activity_table (normalized 151 3)\<bar> \<le> 1 / 200"
    by blast
  from s(1) have "s = 20.03" by simp
  with s(2) have "\<bar>20.03 - activity_table (normalized 151 3)\<bar> \<le> 1 / 200" by simp
  with v show ?thesis by simp
qed


section \<open>The contract reader\<close>

text \<open>
  A decoded Transfer event, the dictionary that \<^verbatim>\<open>get_transfer_events\<close> builds:
  \<open>ev_from\<close>, \<open>ev_to\<close> and \<open>ev_value\<close> are its keys \<^verbatim>\<open>"from"\<close>,
  \<^verbatim>\<open>"to"\<close> and \<^verbatim>\<open>"value"\<close>.
\<close>

record transfer_event =
  block_number :: int
  transaction_hash :: string
  ev_from :: string
  ev_to :: string
  ev_value :: int

text \<open>
  The Web3 client and the web3 library are not part of the sources; they are a
  parameter of the model. Every remote call takes the state \<open>'w\<close> of the outside
  world and returns its result, or the exception it raises, with the next state, so
  that two calls with the same arguments may answer differently. \<open>'l\<close> is the type of
  raw logs. \<open>to_checksum_address\<close> and \<open>process_log\<close> are local computations of the
  library and may raise on malformed input. The calls on a contract take the contract's
  address first.
\<close>

record ('w, 'l) web3_client =
  to_checksum_address :: "string \<Rightarrow> exn + string"
  call_name :: "string \<Rightarrow> 'w \<Rightarrow> (exn + string) \<times> 'w"
  call_symbol :: "string \<Rightarrow> 'w \<Rightarrow> (exn + string) \<times> 'w"
  call_decimals :: "string \<Rightarrow> 'w \<Rightarrow> (exn + int) \<times> 'w"
  call_totalSupply :: "string \<Rightarrow> 'w \<Rightarrow> (exn + int) \<times> 'w"
  call_balanceOf :: "string \<Rightarrow> string \<Rightarrow> 'w \<Rightarrow> (exn + int) \<times> 'w"
  eth_get_logs :: "string \<Rightarrow> int \<Rightarrow> int \<Rightarrow> 'w \<Rightarrow> (exn + 'l list) \<times> 'w"
  process_log :: "'l \<Rightarrow> exn + transfer_event"
  get_block_number :: "'w \<Rightarrow> (exn + int) \<times> 'w"
  get_latest_block :: "'w \<Rightarrow> (exn + int) \<times> 'w"
  is_contract :: "string \<Rightarrow> 'w \<Rightarrow> (exn + bool) \<times> 'w"

text \<open>
  \<^verbatim>\<open>ContractReader\<close> and its constructor, which normalises the address and raises
  what \<^verbatim>\<open>Web3.to_checksum_address\<close> raises.
\<close>

record ('w, 'l) contract_reader =
  client :: "('w, 'l) web3_client"
  contract_address :: string

definition ContractReader :: "('w, 'l) web3_client \<Rightarrow> string \<Rightarrow> exn + ('w, 'l) contract_reader" where
  "ContractReader c address =
     (case to_checksum_address c address of
        Inl e \<Rightarrow> Inl e
      | Inr a \<Rightarrow> Inr \<lparr>client = c, contract_address = a\<rparr>)"

text \<open>
  The metadata readers: each wraps the contract call in \<^verbatim>\<open>try ... except Exception\<close>
  and returns a default.
\<close>

definition get_name :: "('w, 'l) contract_reader \<Rightarrow> 'w \<Rightarrow> string \<times> 'w" where
  "get_name reader w =
     (case call_name (client reader) (contract_address reader) w of
        (Inr v, w') \<Rightarrow> (v, w')
      | (Inl e, w') \<Rightarrow> (''Unknown'', w'))"

definition get_symbol :: "('w, 'l) contract_reader \<Rightarrow> 'w \<Rightarrow> string \<times> 'w" where
  "get_symbol reader w =
     (case call_symbol (client reader) (contract_address reader) w of
        (Inr v, w') \<Rightarrow> (v, w')
      | (Inl e, w') \<Rightarrow> (''UNKNOWN'', w'))"

definition get_decimals :: "('w, 'l) contract_reader \<Rightarrow> 'w \<Rightarrow> int \<times> 'w" where
  "get_decimals reader w =
     (case call_decimals (client reader) (contract_address reader) w of
        (Inr v, w') \<Rightarrow> (v, w')
      | (Inl e, w') \<Rightarrow> (18, w'))"

definition get_total_supply :: "('w, 'l) contract_reader \<Rightarrow> 'w \<Rightarrow> int \<times> 'w" where
  "get_total_supply reader w =
     (case call_totalSupply (client reader) (contract_address reader) w of
        (Inr v, w') \<Rightarrow> (v, w')
      | (Inl e, w') \<Rightarrow> (0, w'))"

text \<open>
  \<^verbatim>\<open>get_balance\<close>: the address is normalised before the \<^verbatim>\<open>try\<close> block, the
  contract call inside it.
\<close>

definition get_balance :: "('w, 'l) contract_reader \<Rightarrow> string \<Rightarrow> 'w \<Rightarrow> (exn + int) \<times> 'w" where
  "get_balance reader address w =
     (case to_checksum_address (client reader) address of
        Inl e \<Rightarrow> (Inl e, w)
      | Inr checksum_address \<Rightarrow>
          (case call_balanceOf (client reader) (contract_address reader) checksum_address w of
             (Inr v, w') \<Rightarrow> (Inr v, w')
           | (Inl e, w') \<Rightarrow> (Inr 0, w')))"

text \<open>
  \<^verbatim>\<open>get_transfer_events\<close>, as this repository calls it: without address filters
  (the two optional filter arguments only fill \<^verbatim>\<open>filter_params\<close>, which the query
  does not read). A log that fails to decode is skipped; any exception of the query
  itself is caught, and the result is then the empty list. Only the read of the latest
  block number, made when \<open>to_block\<close> is \<open>None\<close>, is outside the \<^verbatim>\<open>try\<close> block.
\<close>

fun format_events :: "('l \<Rightarrow> exn + transfer_event) \<Rightarrow> 'l list \<Rightarrow> transfer_event list" where
  "format_events decode [] = []"
| "format_events decode (raw # logs) =
     (case decode raw of
        Inr event_data \<Rightarrow> event_data # format_events decode logs
      | Inl decode_error \<Rightarrow> format_events decode logs)"

definition get_transfer_events
  :: "('w, 'l) contract_reader \<Rightarrow> int \<Rightarrow> int option \<Rightarrow> 'w \<Rightarrow> (exn + transfer_event list) \<times> 'w" where
  "get_transfer_events reader from_block to_block w =
     (case (case to_block of None \<Rightarrow> get_block_number (client reader) w
                           | Some t \<Rightarrow> (Inr t, w)) of
        (Inl e, w1) \<Rightarrow> (Inl e, w1)
      | (Inr to_block', w1) \<Rightarrow>
          (case eth_get_logs (client reader) (contract_address reader) from_block to_block' w1 of
             (Inr logs, w2) \<Rightarrow> (Inr (format_events (process_log (client reader)) logs), w2)
           | (Inl e, w2) \<Rightarrow> (Inr [], w2)))"

text \<open>
  A client on which every contract call reverts and every log query is refused, and whose
  address normalisation accepts exactly the strings of 42 characters. Each call is
  counted in the state of the world.
\<close>

definition reverting_client :: "(nat, transfer_event) web3_client" where
  "reverting_client =
     \<lparr>to_checksum_address =
        (\<lambda>a. if length a = 42 then Inr a else Inl (Exception ''invalid address'')),
      call_name = (\<lambda>_ w. (Inl (Exception ''execution reverted''), Suc w)),
      call_symbol = (\<lambda>_ w. (Inl (Exception ''execution reverted''), Suc w)),
      call_decimals = (\<lambda>_ w. (Inl (Exception ''execution reverted''), Suc w)),
      call_totalSupply = (\<lambda>_ w. (Inl (Exception ''execution reverted''), Suc w)),
      call_balanceOf = (\<lambda>_ _ w. (Inl (Exception ''execution reverted''), Suc w)),
      eth_get_logs = (\<lambda>_ _ _ w. (Inl (Exception ''block range too large''), Suc w)),
      process_log = Inr,
      get_block_number = (\<lambda>w. (Inr 0, w)),
      get_latest_block = (\<lambda>w. (Inr 0, w)),
      is_contract = (\<lambda>_ w. (Inr False, w))\<rparr>"

definition reverting_reader :: "(nat, transfer_event) contract_reader" where
  "reverting_reader =
     \<lparr>client = reverting_client,
      contract_address = ''0x754704bc059f8c67012fed69bc8a327a5aafb603''\<rparr>"

text \<open>
  Claim C9. For every address and every failing contract call, in any state of the
  world, the reader returns the documented default and the failure does not reach the
  caller: \<^verbatim>\<open>get_name\<close> returns \<open>''Unknown''\<close>, \<^verbatim>\<open>get_symbol\<close> returns
  \<open>''UNKNOWN''\<close>, \<^verbatim>\<open>get_decimals\<close> returns 18, \<^verbatim>\<open>get_total_supply\<close> returns 0, and
  \<^verbatim>\<open>get_balance\<close> returns 0 when the balance call, made on the normalised address,
  fails; a second call on the same address that fails in the state the first one left
  returns 0 again.
\<close>

theorem reader_defaults:
  "(fst (call_name (client reader) (contract_address reader) w) = Inl e
      \<longrightarrow> fst (get_name reader w) = ''Unknown'')
   \<and> (fst (call_symbol (client reader) (contract_address reader) w) = Inl e
      \<longrightarrow> fst (get_symbol reader w) = ''UNKNOWN'')
   \<and> (fst (call_decimals (client reader) (contract_address reader) w) = Inl e
      \<longrightarrow> fst (get_decimals reader w) = 18)
   \<and> (fst (call_totalSupply (client reader) (contract_address reader) w) = Inl e
      \<longrightarrow> fst (get_total_supply reader w) = 0)
   \<and> (to_checksum_address (client reader) address = Inr a
       \<and> fst (call_balanceOf (client reader) (contract_address reader) a w) = Inl e
      \<longrightarrow> fst (get_balance reader address w) = Inr 0)
   \<and> (to_checksum_address (client reader) address = Inr a
       \<and> fst (call_balanceOf (client reader) (contract_address reader) a w) = Inl e
       \<and> fst (call_balanceOf (client reader) (contract_address reader) a
                (snd (get_balance reader address w))) = Inl e'
      \<longrightarrow> fst (get_balance reader address (snd (get_balance reader address w))) = Inr 0)"
  by (auto simp: get_name_def get_symbol_def get_decimals_def get_total_supply_def
      get_balance_def split: prod.splits sum.splits)

theorem reader_defaults_witness:
  "fst (get_name reverting_reader 0) = ''Unknown''
   \<and> fst (get_symbol reverting_reader 0) = ''UNKNOWN''
   \<and> fst (get_decimals reverting_reader 0) = 18
   \<and> fst (get_total_supply reverting_reader 0) = 0
   \<and> fst (get_balance reverting_reader ''0x00000000000000000000000000000000000000a1'' 0) = Inr 0
   \<and> fst (get_balance reverting_reader ''0x00000000000000000000000000000000000000a1''
        (snd (get_balance reverting_reader ''0x00000000000000000000000000000000000000a1'' 0)))
      = Inr 0"
  using reader_defaults [of reverting_reader 0 "Exception ''execution reverted''"
      "''0x00000000000000000000000000000000000000a1''"
      "''0x00000000000000000000000000000000000000a1''" "Exception ''execution reverted''"]
  by (simp add: reverting_reader_def reverting_client_def)

section \<open>HolderAnalyzer\<close>

subsection \<open>The block scan of \<^verbatim>\<open>get_all_holders\<close>\<close>

definition ZERO_ADDRESS :: string where
  "ZERO_ADDRESS = ''0x0000000000000000000000000000000000000000''"

definition BATCH_SIZE :: int where
  "BATCH_SIZE = 1000"

text \<open>
  \<^verbatim>\<open>str.lower\<close> on the ASCII letters (a \<^typ>\<open>char\<close> is a byte), and the test
  \<^verbatim>\<open>needle in haystack\<close> on strings.
\<close>

definition lower_char :: "char \<Rightarrow> char" where
  "lower_char c =
     (case map_of (zip ''ABCDEFGHIJKLMNOPQRSTUVWXYZ'' ''abcdefghijklmnopqrstuvwxyz'') c of
        Some l \<Rightarrow> l
      | None \<Rightarrow> c)"

definition lower :: "string \<Rightarrow> string" where
  "lower s = map lower_char s"

fun starts_with :: "string \<Rightarrow> string \<Rightarrow> bool" where
  "starts_with [] s = True"
| "starts_with (p # ps) [] = False"
| "starts_with (p # ps) (c # cs) = (p = c \<and> starts_with ps cs)"

fun contains :: "string \<Rightarrow> string \<Rightarrow> bool" where
  "contains needle [] = (needle = [])"
| "contains needle (c # cs) = (starts_with needle (c # cs) \<or> contains needle cs)"

text \<open>\<^verbatim>\<open>str(e)\<close>, and the test \<^verbatim>\<open>"block range too large" in str(e).lower()\<close>.\<close>

fun str :: "exn \<Rightarrow> string" where
  "str ZeroDivisionError = ''division by zero''"
| "str OverflowError = ''integer division result too large for a float''"
| "str (Exception msg) = msg"

definition block_range_too_large :: "exn \<Rightarrow> bool" where
  "block_range_too_large e = contains ''block range too large'' (lower (str e))"

text \<open>
  The body of \<^verbatim>\<open>for event in events\<close>: both ends of the transfer join the set of
  addresses, unless they are the zero address.
\<close>

definition add_event :: "transfer_event \<Rightarrow> string set \<Rightarrow> string set" where
  "add_event event all_addresses =
     (let with_from = (if ev_from event \<noteq> ZERO_ADDRESS
                       then insert (ev_from event) all_addresses else all_addresses)
      in if ev_to event \<noteq> ZERO_ADDRESS then insert (ev_to event) with_from else with_from)"

text \<open>
  The variables of the scanning loop of \<^verbatim>\<open>get_all_holders\<close>, with the state of the
  outside world. A query is \<^verbatim>\<open>reader.get_transfer_events(current, batch_end)\<close> seen
  from the loop: it returns events or raises.
\<close>

record 'w scan_state =
  current :: int
  all_addresses :: "string set"
  world :: 'w

type_synonym 'w query = "int \<Rightarrow> int \<Rightarrow> 'w \<Rightarrow> (exn + transfer_event list) \<times> 'w"

text \<open>
  One iteration of \<^verbatim>\<open>while current <= to_block\<close>: the query of the batch, and the
  handler of its exception with the halved retry.
\<close>

definition scan_batch :: "'w query \<Rightarrow> int \<Rightarrow> 'w scan_state \<Rightarrow> 'w scan_state" where
  "scan_batch query to_block st =
     (let batch_end = min (current st + BATCH_SIZE) to_block
      in case query (current st) batch_end (world st) of
           (Inr events, w1) \<Rightarrow>
             \<lparr>current = batch_end + 1,
              all_addresses = fold add_event events (all_addresses st),
              world = w1\<rparr>
         | (Inl e, w1) \<Rightarrow>
             if block_range_too_large e then
               let smaller_batch = (batch_end - current st) div 2
               in if smaller_batch < 100
                  then \<lparr>current = batch_end + 1, all_addresses = all_addresses st, world = w1\<rparr>
                  else
                    let batch_end = current st + smaller_batch
                    in case query (current st) batch_end w1 of
                         (Inr events, w2) \<Rightarrow>
                           \<lparr>current = batch_end + 1,
                            all_addresses = fold add_event events (all_addresses st),
                            world = w2\<rparr>
                       | (Inl retry_e, w2) \<Rightarrow>
                           \<lparr>current = batch_end + 1, all_addresses = all_addresses st,
                            world = w2\<rparr>
             else \<lparr>current = batch_end + 1, all_addresses = all_addresses st, world = w1\<rparr>)"

text \<open>
  The loop itself. It is defined without any termination argument: a run that never
  leaves the loop has the value \<open>None\<close>.
\<close>

partial_function (option) scan_loop :: "'w query \<Rightarrow> int \<Rightarrow> 'w scan_state \<Rightarrow> 'w scan_state option" where
  "scan_loop query to_block st =
     (if current st \<le> to_block then scan_loop query to_block (scan_batch query to_block st)
      else Some st)"

text \<open>A query that raises the capacity error on every range, counting its calls.\<close>

definition always_too_large :: "nat query" where
  "always_too_large from_block to_block w = (Inl (Exception ''Block range too large''), Suc w)"

lemma scan_batch_current:
  assumes "current st \<le> to_block"
  shows "current st < current (scan_batch query to_block st)
       \<and> current (scan_batch query to_block st) \<le> to_block + 1
       \<and> (current (scan_batch query to_block st) = min (current st + BATCH_SIZE) to_block + 1
          \<or> current (scan_batch query to_block st)
               = current st + (min (current st + BATCH_SIZE) to_block - current st) div 2 + 1
             \<and> 100 \<le> (min (current st + BATCH_SIZE) to_block - current st) div 2)"
  using assms unfolding scan_batch_def Let_def BATCH_SIZE_def
  by (auto split: prod.splits sum.splits)

lemma scan_loop_rule:
  assumes "I st" and step: "\<And>s. I s \<Longrightarrow> current s \<le> to_block \<Longrightarrow> I (scan_batch query to_block s)"
  shows "\<exists>st'. scan_loop query to_block st = Some st' \<and> I st' \<and> to_block < current st'"
  using \<open>I st\<close>
proof (induction "nat (to_block + 1 - current st)" arbitrary: st rule: less_induct)
  case less
  show ?case
  proof (cases "current st \<le> to_block")
    case False
    with less.prems show ?thesis by (subst scan_loop.simps) simp
  next
    case True
    let ?st = "scan_batch query to_block st"
    from scan_batch_current [OF True, of query]
    have "nat (to_block + 1 - current ?st) < nat (to_block + 1 - current st)" by linarith
    moreover have "I ?st" using less.prems True by (rule step)
    ultimately obtain st' where "scan_loop query to_block ?st = Some st'" "I st'" "to_block < current st'"
      using less.hyps by blast
    with True show ?thesis by (subst scan_loop.simps) simp
  qed
qed

text \<open>
  Claim C4. The scanning loop terminates, whatever the queries answer. In every
  iteration, entered with the cursor at most \<open>to_block\<close>, the batch \<open>[current,
  batch_end]\<close> is not empty and the cursor moves strictly forward, to one past the end
  of the batch just attempted, case by case: after a successful query of the batch, to
  \<open>batch_end + 1\<close>, with the addresses of its events added; after a failure that is
  not the capacity error, and after a capacity error whose halved size is below the
  floor of 100, to \<open>batch_end + 1\<close> with no address added; after a capacity error
  with a halved size of at least 100, the halved batch is queried, and the cursor
  moves to one past its end, whether that retry succeeds or fails. The loop returns
  with the cursor beyond \<open>to_block\<close>; started at a cursor not beyond \<open>to_block + 1\<close>
  it stops exactly at \<open>to_block + 1\<close>. This holds in particular when every query
  raises the capacity error.
\<close>

theorem scan_loop_terminates:
  "(current st \<le> to_block \<longrightarrow>
      current st \<le> min (current st + BATCH_SIZE) to_block
      \<and> current st < current (scan_batch query to_block st)
      \<and> (query (current st) (min (current st + BATCH_SIZE) to_block) (world st)
            = (Inr events, w1) \<longrightarrow>
          scan_batch query to_block st
            = \<lparr>current = min (current st + BATCH_SIZE) to_block + 1,
               all_addresses = fold add_event events (all_addresses st), world = w1\<rparr>)
      \<and> (query (current st) (min (current st + BATCH_SIZE) to_block) (world st)
            = (Inl e, w1)
          \<and> (\<not> block_range_too_large e
             \<or> (min (current st + BATCH_SIZE) to_block - current st) div 2 < 100) \<longrightarrow>
          scan_batch query to_block st
            = \<lparr>current = min (current st + BATCH_SIZE) to_block + 1,
               all_addresses = all_addresses st, world = w1\<rparr>)
      \<and> (query (current st) (min (current st + BATCH_SIZE) to_block) (world st)
            = (Inl e, w1)
          \<and> block_range_too_large e
          \<and> 100 \<le> (min (current st + BATCH_SIZE) to_block - current st) div 2
          \<and> query (current st)
               (current st + (min (current st + BATCH_SIZE) to_block - current st) div 2) w1
             = (Inr events', w2) \<longrightarrow>
          scan_batch query to_block st
            = \<lparr>current = current st
                 + (min (current st + BATCH_SIZE) to_block - current st) div 2 + 1,
               all_addresses = fold add_event events' (all_addresses st), world = w2\<rparr>)
      \<and> (query (current st) (min (current st + BATCH_SIZE) to_block) (world st)
            = (Inl e, w1)
          \<and> block_range_too_large e
          \<and> 100 \<le> (min (current st + BATCH_SIZE) to_block - current st) div 2
          \<and> query (current st)
               (current st + (min (current st + BATCH_SIZE) to_block - current st) div 2) w1
             = (Inl retry_e, w2) \<longrightarrow>
          scan_batch query to_block st
            = \<lparr>current = current st
                 + (min (current st + BATCH_SIZE) to_block - current st) div 2 + 1,
               all_addresses = all_addresses st, world = w2\<rparr>))
   \<and> (\<exists>st'. scan_loop query to_block st = Some st' \<and> to_block < current st'
          \<and> (current st \<le> to_block + 1 \<longrightarrow> current st' = to_block + 1))"
proof -
  have "\<exists>st'. scan_loop query to_block st = Some st'
          \<and> (current st \<le> to_block + 1 \<longrightarrow> current st' \<le> to_block + 1) \<and> to_block < current st'"
    by (rule scan_loop_rule [where I = "\<lambda>s. current st \<le> to_block + 1 \<longrightarrow> current s \<le> to_block + 1"])
       (use scan_batch_current in auto)
  then have loop: "\<exists>st'. scan_loop query to_block st = Some st' \<and> to_block < current st'
          \<and> (current st \<le> to_block + 1 \<longrightarrow> current st' = to_block + 1)"
    by fastforce
  have "current st \<le> to_block \<longrightarrow> current st \<le> min (current st + BATCH_SIZE) to_block"
    by (simp add: BATCH_SIZE_def)
  moreover have "current st \<le> to_block \<longrightarrow> current st < current (scan_batch query to_block st)"
    using scan_batch_current [of st to_block query] by simp
  moreover have "(query (current st) (min (current st + BATCH_SIZE) to_block) (world st)
            = (Inr events, w1) \<longrightarrow>
          scan_batch query to_block st
            = \<lparr>current = min (current st + BATCH_SIZE) to_block + 1,
               all_addresses = fold add_event events (all_addresses st), world = w1\<rparr>)
      \<and> (query (current st) (min (current st + BATCH_SIZE) to_block) (world st)
            = (Inl e, w1)
          \<and> (\<not> block_range_too_large e
             \<or> (min (current st + BATCH_SIZE) to_block - current st) div 2 < 100) \<longrightarrow>
          scan_batch query to_block st
            = \<lparr>current = min (current st + BATCH_SIZE) to_block + 1,
               all_addresses = all_addresses st, world = w1\<rparr>)
      \<and> (query (current st) (min (current st + BATCH_SIZE) to_block) (world st)
            = (Inl e, w1)
          \<and> block_range_too_large e
          \<and> 100 \<le> (min (current st + BATCH_SIZE) to_block - current st) div 2
          \<and> query (current st)
               (current st + (min (current st + BATCH_SIZE) to_block - current st) div 2) w1
             = (Inr events', w2) \<longrightarrow>
          scan_batch query to_block st
            = \<lparr>current = current st
                 + (min (current st + BATCH_SIZE) to_block - current st) div 2 + 1,
               all_addresses = fold add_event events' (all_addresses st), world = w2\<rparr>)
      \<and> (query (current st) (min (current st + BATCH_SIZE) to_block) (world st)
            = (Inl e, w1)
          \<and> block_range_too_large e
          \<and> 100 \<le> (min (current st + BATCH_SIZE) to_block - current st) div 2
          \<and> query (current st)
               (current st + (min (current st + BATCH_SIZE) to_block - current st) div 2) w1
             = (Inl retry_e, w2) \<longrightarrow>
          scan_batch query to_block st
            = \<lparr>current = current st
                 + (min (current st + BATCH_SIZE) to_block - current st) div 2 + 1,
               all_addresses = all_addresses st, world = w2\<rparr>)"
    unfolding scan_batch_def Let_def by (auto split: prod.splits sum.splits)
  ultimately show ?thesis
    using loop by (simp only:) blast
qed

theorem scan_loop_terminates_witness:
  "(0::int) \<le> 2500
   \<and> always_too_large 0 1000 0 = (Inl (Exception ''Block range too large''), 1)
   \<and> block_range_too_large (Exception ''Block range too large'')
   \<and> always_too_large 0 500 1 = (Inl (Exception ''Block range too large''), 2)
   \<and> scan_batch always_too_large 2500 \<lparr>current = 0, all_addresses = {}, world = 0\<rparr>
       = \<lparr>current = 501, all_addresses = {}, world = 2\<rparr>
   \<and> (\<exists>st'. scan_loop always_too_large 2500 \<lparr>current = 0, all_addresses = {}, world = 0\<rparr>
          = Some st' \<and> current st' = 2501)"
proof -
  have q: "always_too_large 0 1000 0 = (Inl (Exception ''Block range too large''), 1)"
      "always_too_large 0 500 1 = (Inl (Exception ''Block range too large''), 2)"
    by (simp_all add: always_too_large_def)
  have b: "block_range_too_large (Exception ''Block range too large'')"
    by (simp add: block_range_too_large_def lower_def lower_char_def)
  from q b scan_loop_terminates
      [of "\<lparr>current = 0, all_addresses = {}, world = 0\<rparr>" 2500 always_too_large
        "[]" 1 "Exception ''Block range too large''" "[]" 2
        "Exception ''Block range too large''"]
  show ?thesis by (auto simp: BATCH_SIZE_def)
qed

subsection \<open>\<^verbatim>\<open>get_all_holders\<close>\<close>

text \<open>
  The holder dictionary, address to balance, in insertion order (the order that
  \<^verbatim>\<open>sorted\<close> keeps among equal balances).
\<close>

type_synonym holders = "(string \<times> int) list"

text \<open>
  Modelled from the spec: the cache \<^verbatim>\<open>SimpleDB\<close> of \<^verbatim>\<open>utils/simple_db.py\<close>, which is
  not part of the sources. The specification gives it as \<open>get(key) -> value | absent\<close>
  and \<open>set(key, value)\<close>, an absent and a stale entry both being a miss: a store from
  keys to values, in which an entry that has expired is absent.
\<close>

type_synonym simple_db = "string \<rightharpoonup> holders"

definition db_get :: "simple_db \<Rightarrow> string \<Rightarrow> holders option" where
  "db_get db key = db key"

definition db_set :: "simple_db \<Rightarrow> string \<Rightarrow> holders \<Rightarrow> simple_db" where
  "db_set db key v = db(key \<mapsto> v)"

text \<open>
  \<^verbatim>\<open>HolderAnalyzer\<close>: its client and the flag \<^verbatim>\<open>use_cache\<close>. The cache
  \<^verbatim>\<open>self.db\<close> is mutable state and travels with the state of the world.
\<close>

record ('w, 'l) holder_analyzer =
  holder_client :: "('w, 'l) web3_client"
  use_cache :: bool

text \<open>
  The second loop of \<^verbatim>\<open>get_all_holders\<close>: one balance read for each address, kept
  when positive; an exception of \<^verbatim>\<open>get_balance\<close> skips the address.
\<close>

fun read_balances
  :: "('w, 'l) contract_reader \<Rightarrow> string list \<Rightarrow> holders \<Rightarrow> 'w \<Rightarrow> holders \<times> 'w" where
  "read_balances reader [] holders w = (holders, w)"
| "read_balances reader (addr # addrs) holders w =
     (case get_balance reader addr w of
        (Inr balance, w') \<Rightarrow>
          read_balances reader addrs
            (if balance > 0 then AList.update addr balance holders else holders) w'
      | (Inl e, w') \<Rightarrow> read_balances reader addrs holders w')"

text \<open>
  \<^verbatim>\<open>get_all_holders\<close> after the cache lookup: the reader is constructed, \<open>to_block\<close>
  defaults to the latest block, the range is scanned and the balances are read. Python
  iterates over the set \<^verbatim>\<open>all_addresses\<close> in an order it does not specify;
  \<open>iteration\<close> is that order.
\<close>

definition fetch_all_holders
  :: "('w, 'l) holder_analyzer \<Rightarrow> (string set \<Rightarrow> string list) \<Rightarrow> string \<Rightarrow> int \<Rightarrow> int option
      \<Rightarrow> 'w \<Rightarrow> ((exn + holders) \<times> 'w) option" where
  "fetch_all_holders self iteration token_address from_block to_block w =
     (case ContractReader (holder_client self) token_address of
        Inl e \<Rightarrow> Some (Inl e, w)
      | Inr reader \<Rightarrow>
          (case (case to_block of None \<Rightarrow> get_latest_block (holder_client self) w
                                | Some t \<Rightarrow> (Inr t, w)) of
             (Inl e, w1) \<Rightarrow> Some (Inl e, w1)
           | (Inr to_block', w1) \<Rightarrow>
               (case scan_loop (\<lambda>current batch_end. get_transfer_events reader current (Some batch_end))
                       to_block' \<lparr>current = from_block, all_addresses = {}, world = w1\<rparr> of
                  None \<Rightarrow> None
                | Some st \<Rightarrow>
                    (case read_balances reader (iteration (all_addresses st)) [] (world st) of
                       (holders, w2) \<Rightarrow> Some (Inr holders, w2)))))"

text \<open>
  \<^verbatim>\<open>get_all_holders\<close>: a cached dictionary that is not empty is returned as it is;
  otherwise the holders are fetched and, with \<^verbatim>\<open>use_cache\<close>, stored.
\<close>

definition get_all_holders
  :: "('w, 'l) holder_analyzer \<Rightarrow> (string set \<Rightarrow> string list) \<Rightarrow> string \<Rightarrow> int \<Rightarrow> int option
      \<Rightarrow> simple_db \<times> 'w \<Rightarrow> ((exn + holders) \<times> simple_db \<times> 'w) option" where
  "get_all_holders self iteration token_address from_block to_block \<sigma> =
     (case \<sigma> of (db, w) \<Rightarrow>
        let cache_key = ''holders_'' @ lower token_address;
            fetched =
              (case fetch_all_holders self iteration token_address from_block to_block w of
                 None \<Rightarrow> None
               | Some (Inl e, w') \<Rightarrow> Some (Inl e, db, w')
               | Some (Inr holders, w') \<Rightarrow>
                   Some (Inr holders,
                         if use_cache self then db_set db cache_key holders else db, w'))
        in if use_cache self
           then (case db_get db cache_key of
                   Some cached \<Rightarrow> if cached \<noteq> [] then Some (Inr cached, db, w) else fetched
                 | None \<Rightarrow> fetched)
           else fetched)"

text \<open>
  A well-formed holder dictionary has no zero address and only positive balances; a
  well-formed cache holds only such dictionaries; an iteration order enumerates every
  finite set without repetition.
\<close>

definition holders_ok :: "holders \<Rightarrow> bool" where
  "holders_ok hs = (\<forall>(a, b) \<in> set hs. a \<noteq> ZERO_ADDRESS \<and> 0 < b)"

definition db_ok :: "simple_db \<Rightarrow> bool" where
  "db_ok db = (\<forall>key hs. db key = Some hs \<longrightarrow> holders_ok hs)"

definition enumerates :: "(string set \<Rightarrow> string list) \<Rightarrow> bool" where
  "enumerates iteration = (\<forall>S. finite S \<longrightarrow> set (iteration S) = S \<and> distinct (iteration S))"

text \<open>
  A client for two holders. A log query over more than 500 blocks is refused with the
  capacity error; a smaller one returns a mint to \<open>alice\<close>, a transfer from \<open>alice\<close> to
  \<open>bob\<close> and a burn by \<open>bob\<close>. The state of the world is the list of the ranges
  queried so far. \<open>alice\<close> holds 5 units, \<open>bob\<close> none.
\<close>

definition alice :: string where
  "alice = ''0x00000000000000000000000000000000000000A1''"

definition bob :: string where
  "bob = ''0x00000000000000000000000000000000000000b2''"

definition token :: string where
  "token = ''0x754704bc059f8c67012fed69bc8a327a5aafb603''"

definition capped_client :: "((int \<times> int) list, transfer_event) web3_client" where
  "capped_client =
     \<lparr>to_checksum_address = Inr,
      call_name = (\<lambda>_ w. (Inr ''Token'', w)),
      call_symbol = (\<lambda>_ w. (Inr ''TKN'', w)),
      call_decimals = (\<lambda>_ w. (Inr 18, w)),
      call_totalSupply = (\<lambda>_ w. (Inr 1000, w)),
      call_balanceOf = (\<lambda>_ a w. (Inr (if a = alice then 5 else 0), w)),
      eth_get_logs = (\<lambda>_ from_block to_block w.
         (if to_block - from_block > 500 then Inl (Exception ''Block range too large'')
          else Inr [\<lparr>block_number = from_block, transaction_hash = ''0x01'',
                     ev_from = ZERO_ADDRESS, ev_to = alice, ev_value = 5\<rparr>,
                    \<lparr>block_number = from_block, transaction_hash = ''0x02'',
                     ev_from = alice, ev_to = bob, ev_value = 3\<rparr>,
                    \<lparr>block_number = from_block, transaction_hash = ''0x03'',
                     ev_from = bob, ev_to = ZERO_ADDRESS, ev_value = 3\<rparr>],
          w @ [(from_block, to_block)])),
      process_log = Inr,
      get_block_number = (\<lambda>w. (Inr 1000, w)),
      get_latest_block = (\<lambda>w. (Inr 1000, w)),
      is_contract = (\<lambda>_ w. (Inr False, w))\<rparr>"

definition capped_analyzer :: "((int \<times> int) list, transfer_event) holder_analyzer" where
  "capped_analyzer = \<lparr>holder_client = capped_client, use_cache = False\<rparr>"

lemma add_event_inv:
  "finite S \<and> ZERO_ADDRESS \<notin> S \<Longrightarrow> finite (add_event ev S) \<and> ZERO_ADDRESS \<notin> add_event ev S"
  by (simp add: add_event_def Let_def)

lemma fold_add_event_inv:
  "finite S \<and> ZERO_ADDRESS \<notin> S \<Longrightarrow>
   finite (fold add_event evs S) \<and> ZERO_ADDRESS \<notin> fold add_event evs S"
  by (induction evs arbitrary: S) (simp_all add: add_event_inv del: conj_assoc)

lemma scan_batch_inv:
  assumes "finite (all_addresses st) \<and> ZERO_ADDRESS \<notin> all_addresses st"
  shows "finite (all_addresses (scan_batch query to_block st))
       \<and> ZERO_ADDRESS \<notin> all_addresses (scan_batch query to_block st)"
  using assms fold_add_event_inv [OF assms]
  unfolding scan_batch_def Let_def
  by (auto split: prod.splits sum.splits)

lemma scan_loop_addresses:
  "\<exists>st. scan_loop query to_block \<lparr>current = from_block, all_addresses = {}, world = w\<rparr> = Some st
      \<and> finite (all_addresses st) \<and> ZERO_ADDRESS \<notin> all_addresses st"
  using scan_loop_rule [where I = "\<lambda>s. finite (all_addresses s) \<and> ZERO_ADDRESS \<notin> all_addresses s"
      and st = "\<lparr>current = from_block, all_addresses = {}, world = w\<rparr>" and query = query
      and to_block = to_block]
    scan_batch_inv [of _ query to_block]
  by auto

lemma update_holders_ok:
  "holders_ok hs \<Longrightarrow> a \<noteq> ZERO_ADDRESS \<Longrightarrow> 0 < b \<Longrightarrow> holders_ok (AList.update a b hs)"
  unfolding holders_ok_def by (induction hs) auto

lemma read_balances_ok:
  "holders_ok hs \<Longrightarrow> ZERO_ADDRESS \<notin> set addrs \<Longrightarrow>
   holders_ok (fst (read_balances reader addrs hs w))"
  by (induction addrs arbitrary: hs w)
     (auto simp: update_holders_ok split: prod.splits sum.splits)

lemma fetch_all_holders_ok:
  assumes "enumerates iteration"
  shows "\<exists>r w'. fetch_all_holders self iteration token_address from_block to_block w = Some (r, w')
          \<and> (\<forall>hs. r = Inr hs \<longrightarrow> holders_ok hs)"
proof (cases "ContractReader (holder_client self) token_address")
  case (Inl e)
  then show ?thesis by (simp add: fetch_all_holders_def)
next
  case (Inr reader)
  show ?thesis
  proof (cases "case to_block of None \<Rightarrow> get_latest_block (holder_client self) w | Some t \<Rightarrow> (Inr t, w)")
    case (Pair res w1)
    show ?thesis
    proof (cases res)
      case (Inl e)
      with Pair Inr show ?thesis by (simp add: fetch_all_holders_def)
    next
      case tb: (Inr to_block')
      obtain st where st: "scan_loop (\<lambda>current batch_end. get_transfer_events reader current (Some batch_end))
             to_block' \<lparr>current = from_block, all_addresses = {}, world = w1\<rparr> = Some st"
        "finite (all_addresses st)" "ZERO_ADDRESS \<notin> all_addresses st"
        using scan_loop_addresses
          [of "\<lambda>current batch_end. get_transfer_events reader current (Some batch_end)"
            to_block' from_block w1]
        by auto
      from assms st have "ZERO_ADDRESS \<notin> set (iteration (all_addresses st))"
        by (simp add: enumerates_def)
      then have "holders_ok (fst (read_balances reader (iteration (all_addresses st)) [] (world st)))"
        by (intro read_balances_ok) (simp_all add: holders_ok_def)
      with Pair Inr tb st(1) show ?thesis
        by (auto simp: fetch_all_holders_def split: prod.splits)
    qed
  qed
qed

lemma get_all_holders_ok:
  assumes "enumerates iteration" "db_ok db"
  shows "\<exists>r db' w'. get_all_holders self iteration token_address from_block to_block (db, w)
            = Some (r, db', w')
          \<and> db_ok db' \<and> (\<forall>hs. r = Inr hs \<longrightarrow> holders_ok hs)"
proof -
  obtain r w' where f: "fetch_all_holders self iteration token_address from_block to_block w = Some (r, w')"
    "\<forall>hs. r = Inr hs \<longrightarrow> holders_ok hs"
    using fetch_all_holders_ok [OF assms(1), of self token_address from_block to_block w]
    by auto
  show ?thesis
    using f assms(2)
    by (cases r)
       (auto simp: get_all_holders_def Let_def db_get_def db_set_def db_ok_def split: option.splits)
qed

lemma capped_scan_400:
  "map_option fst (get_all_holders capped_analyzer sorted_list_of_set token 0 (Some 400)
     (Map.empty, [])) = Some (Inr [(alice, 5)])"
  apply (simp add: get_all_holders_def fetch_all_holders_def capped_analyzer_def
      capped_client_def ContractReader_def scan_loop.simps scan_batch_def
      get_transfer_events_def BATCH_SIZE_def Let_def add_event_def get_balance_def
      ZERO_ADDRESS_def)
  apply (simp add: alice_def bob_def)
  done

text \<open>
  Claim C3 describes what the handler in \<^verbatim>\<open>get_all_holders\<close> is written to do, and the
  code does not do it: \<^verbatim>\<open>get_transfer_events\<close> catches every exception of the log
  query and returns the empty list, so the handler never runs. On the client above,
  scanning blocks 0 to 1000 issues the single query \<open>(0, 1000)\<close>, which is refused; no
  halved range is tried, the cursor passes the batch, and no holder is found. Driven by
  the log query itself, which does raise, the same iteration retries \<open>(0, 500)\<close> and
  finds both addresses.
\<close>

theorem capacity_error_never_retried:
  "get_all_holders capped_analyzer sorted_list_of_set token 0 (Some 1000) (Map.empty, [])
     = Some (Inr [], Map.empty, [(0, 1000)])
   \<and> scan_batch (\<lambda>current batch_end. get_transfer_events
          \<lparr>client = capped_client, contract_address = token\<rparr> current (Some batch_end)) 1000
        \<lparr>current = 0, all_addresses = {}, world = []\<rparr>
     = \<lparr>current = 1001, all_addresses = {}, world = [(0, 1000)]\<rparr>
   \<and> scan_batch (\<lambda>current batch_end. eth_get_logs capped_client token current batch_end) 1000
        \<lparr>current = 0, all_addresses = {}, world = []\<rparr>
     = \<lparr>current = 501, all_addresses = {alice, bob}, world = [(0, 1000), (0, 500)]\<rparr>"
proof -
  have "get_all_holders capped_analyzer sorted_list_of_set token 0 (Some 1000) (Map.empty, [])
     = Some (Inr [], Map.empty, [(0, 1000)])"
    by (simp add: get_all_holders_def fetch_all_holders_def capped_analyzer_def
        capped_client_def ContractReader_def scan_loop.simps scan_batch_def
        get_transfer_events_def BATCH_SIZE_def Let_def)
  moreover have "scan_batch (\<lambda>current batch_end. get_transfer_events
          \<lparr>client = capped_client, contract_address = token\<rparr> current (Some batch_end)) 1000
        \<lparr>current = 0, all_addresses = {}, world = []\<rparr>
     = \<lparr>current = 1001, all_addresses = {}, world = [(0, 1000)]\<rparr>"
    by (simp add: capped_client_def scan_batch_def get_transfer_events_def BATCH_SIZE_def Let_def)
  moreover have "scan_batch (\<lambda>current batch_end. eth_get_logs capped_client token current batch_end) 1000
        \<lparr>current = 0, all_addresses = {}, world = []\<rparr>
     = \<lparr>current = 501, all_addresses = {alice, bob}, world = [(0, 1000), (0, 500)]\<rparr>"
    by (simp add: scan_batch_def capped_client_def BATCH_SIZE_def Let_def add_event_def
        block_range_too_large_def lower_def lower_char_def ZERO_ADDRESS_def alice_def bob_def
        insert_commute)
  ultimately show ?thesis by blast
qed

text \<open>
  Claim C7. \<^verbatim>\<open>get_all_holders\<close> always returns, and a dictionary it returns never
  has the zero address as a key and has only balances greater than 0, also when the
  zero address is the sender or the recipient of a transfer. This holds for every client,
  every range and every iteration order of the address set, the cache being well formed:
  it is so when empty, and every call leaves it so, \<^verbatim>\<open>get_all_holders\<close> being the
  only writer of its keys.
\<close>

theorem holders_exclude_zero_address:
  assumes "enumerates iteration" and "db_ok db"
  shows "\<exists>r db' w'.
           get_all_holders self iteration token_address from_block to_block (db, w)
             = Some (r, db', w')
         \<and> db_ok db'
         \<and> (\<forall>hs. r = Inr hs \<longrightarrow>
               ZERO_ADDRESS \<notin> fst ` set hs \<and> (\<forall>b \<in> snd ` set hs. 0 < b))"
proof -
  obtain r db' w' where
    "get_all_holders self iteration token_address from_block to_block (db, w) = Some (r, db', w')"
    "db_ok db'" "\<forall>hs. r = Inr hs \<longrightarrow> holders_ok hs"
    using get_all_holders_ok [OF assms, of self token_address from_block to_block w] by auto
  moreover have "holders_ok hs \<Longrightarrow> ZERO_ADDRESS \<notin> fst ` set hs \<and> (\<forall>b \<in> snd ` set hs. 0 < b)"
    for hs by (auto simp: holders_ok_def)
  ultimately show ?thesis by blast
qed

theorem holders_exclude_zero_address_witness:
  "enumerates sorted_list_of_set \<and> db_ok Map.empty
   \<and> (\<exists>db' w'. get_all_holders capped_analyzer sorted_list_of_set token 0 (Some 400)
          (Map.empty, []) = Some (Inr [(alice, 5)], db', w') \<and> db_ok db')"
proof -
  have e: "enumerates sorted_list_of_set" by (simp add: enumerates_def)
  have d: "db_ok Map.empty" by (simp add: db_ok_def)
  from holders_exclude_zero_address [OF e d, of capped_analyzer token 0 "Some 400" "[]"]
    capped_scan_400 e d
  show ?thesis by auto
qed

subsection \<open>\<^verbatim>\<open>analyze_holder_concentration\<close>\<close>

text \<open>
  The dictionary that \<^verbatim>\<open>analyze_holder_concentration\<close> returns; \<open>error\<close> is the key
  that only the result for no holders has.
\<close>

record holder_report =
  total_holders :: nat
  total_supply :: int
  top10_holders :: "(string \<times> int \<times> real) list"
  top10_percentage :: real
  score :: real
  risk_level :: string
  error :: "string option"

text \<open>
  \<^verbatim>\<open>analyze_holder_concentration\<close> from the holder dictionary on: the terminal
  result for no holders, or the observed supply, the stable descending sort
  (\<^verbatim>\<open>sorted(..., reverse=True)\<close> keeps the order of equal balances), the first ten
  and their share. The share of each of the ten is a true division by the observed
  supply, which raises when that is 0.
\<close>

definition concentration_report :: "holders \<Rightarrow> exn + holder_report" where
  "concentration_report holders =
     (if length holders = 0 then
        Inr \<lparr>total_holders = 0, total_supply = 0, top10_holders = [], top10_percentage = 0,
             score = 0, risk_level = ''unknown'', error = Some ''No holders found''\<rparr>
      else
        let total_supply = sum_list (map snd holders);
            sorted_holders = sort_key (\<lambda>x. - snd x) holders;
            top10 = take 10 sorted_holders;
            top10_sum = sum_list (map snd top10);
            top10_percentage =
              (if total_supply > 0 then of_int top10_sum / of_int total_supply * 100 else 0)
        in if total_supply = 0 then Inl ZeroDivisionError
           else
             let top10_formatted =
                   map (\<lambda>(addr, balance). (addr, balance, of_int balance / of_int total_supply * 100))
                     top10
             in Inr \<lparr>total_holders = length holders, total_supply = total_supply,
                     top10_holders = top10_formatted, top10_percentage = top10_percentage,
                     score = holder_calculate_score top10_percentage,
                     risk_level = determine_risk_level top10_percentage,
                     error = None\<rparr>)"

text \<open>\<^verbatim>\<open>analyze_holder_concentration\<close>: the holders are fetched, then reported.\<close>

definition analyze_holder_concentration
  :: "('w, 'l) holder_analyzer \<Rightarrow> (string set \<Rightarrow> string list) \<Rightarrow> string \<Rightarrow> int \<Rightarrow> int option
      \<Rightarrow> simple_db \<times> 'w \<Rightarrow> ((exn + holder_report) \<times> simple_db \<times> 'w) option" where
  "analyze_holder_concentration self iteration token_address from_block to_block \<sigma> =
     (case get_all_holders self iteration token_address from_block to_block \<sigma> of
        None \<Rightarrow> None
      | Some (Inl e, \<sigma>') \<Rightarrow> Some (Inl e, \<sigma>')
      | Some (Inr holders, \<sigma>') \<Rightarrow> Some (concentration_report holders, \<sigma>'))"

text \<open>
  Twelve holders with the balances 1 to 12, in a cache that \<^verbatim>\<open>get_all_holders\<close>
  finds; and a client whose log queries succeed and return nothing.
\<close>

definition twelve_holders :: holders where
  "twelve_holders =
     [(''0x01'', 5), (''0x02'', 12), (''0x03'', 1), (''0x04'', 9), (''0x05'', 3),
      (''0x06'', 11), (''0x07'', 7), (''0x08'', 2), (''0x09'', 10), (''0x0a'', 4),
      (''0x0b'', 8), (''0x0c'', 6)]"

definition caching_analyzer :: "((int \<times> int) list, transfer_event) holder_analyzer" where
  "caching_analyzer = \<lparr>holder_client = capped_client, use_cache = True\<rparr>"

definition warm_db :: simple_db where
  "warm_db = [''holders_'' @ lower token \<mapsto> twelve_holders]"

definition silent_client :: "((int \<times> int) list, transfer_event) web3_client" where
  "silent_client =
     capped_client\<lparr>eth_get_logs :=
       (\<lambda>_ from_block to_block w. (Inr [], w @ [(from_block, to_block)]))\<rparr>"

definition silent_holder_analyzer :: "((int \<times> int) list, transfer_event) holder_analyzer" where
  "silent_holder_analyzer = \<lparr>holder_client = silent_client, use_cache = False\<rparr>"

lemma holders_ok_sum_pos:
  "holders_ok hs \<Longrightarrow> hs \<noteq> [] \<Longrightarrow> 0 < sum_list (map snd hs)"
proof (induction hs)
  case Nil then show ?case by simp
next
  case (Cons h hs)
  then have "0 < snd h" by (auto simp: holders_ok_def)
  moreover have "0 \<le> sum_list (map snd hs)"
    using Cons.prems(1) by (intro sum_list_nonneg) (auto simp: holders_ok_def)
  ultimately show ?case by simp
qed

lemma sort_desc:
  "mset (sort_key (\<lambda>x. - snd x) (hs :: holders)) = mset hs
   \<and> sorted_wrt (\<lambda>x y. snd y \<le> snd x) (sort_key (\<lambda>x. - snd x) hs)"
  using sorted_sort_key [of "\<lambda>x. - snd x" hs] by (simp add: sorted_map)

lemma ignores_total_supply_reader:
  "get_transfer_events \<lparr>client = c\<lparr>call_totalSupply := ts\<rparr>, contract_address = a\<rparr>
     = get_transfer_events \<lparr>client = c, contract_address = a\<rparr>"
  "get_balance \<lparr>client = c\<lparr>call_totalSupply := ts\<rparr>, contract_address = a\<rparr>
     = get_balance \<lparr>client = c, contract_address = a\<rparr>"
  by (simp_all add: get_transfer_events_def get_balance_def fun_eq_iff
      cong: option.case_cong sum.case_cong prod.case_cong)

lemma ignores_total_supply_balances:
  "read_balances \<lparr>client = c\<lparr>call_totalSupply := ts\<rparr>, contract_address = a\<rparr> addrs hs w
     = read_balances \<lparr>client = c, contract_address = a\<rparr> addrs hs w"
  by (induction addrs arbitrary: hs w)
     (simp_all add: ignores_total_supply_reader cong: sum.case_cong prod.case_cong)

lemma ignores_total_supply_fetch:
  "fetch_all_holders (self\<lparr>holder_client := (holder_client self)\<lparr>call_totalSupply := ts\<rparr>\<rparr>)
     iteration token_address from_block to_block w
   = fetch_all_holders self iteration token_address from_block to_block w"
  by (cases "to_checksum_address (holder_client self) token_address")
     (simp_all add: fetch_all_holders_def ContractReader_def ignores_total_supply_reader
        ignores_total_supply_balances cong: option.case_cong sum.case_cong prod.case_cong)

lemma ignores_total_supply:
  "analyze_holder_concentration (self\<lparr>holder_client := (holder_client self)\<lparr>call_totalSupply := ts\<rparr>\<rparr>)
     iteration token_address from_block to_block \<sigma>
   = analyze_holder_concentration self iteration token_address from_block to_block \<sigma>"
  by (simp add: analyze_holder_concentration_def get_all_holders_def Let_def
      ignores_total_supply_fetch cong: option.case_cong sum.case_cong prod.case_cong if_cong)

lemma twelve_ok: "twelve_holders \<noteq> []" "holders_ok twelve_holders"
  by (simp_all add: twelve_holders_def holders_ok_def ZERO_ADDRESS_def)

lemma twelve_hit:
  "get_all_holders caching_analyzer sorted_list_of_set token 0 None (warm_db, [])
     = Some (Inr twelve_holders, warm_db, [])"
  using twelve_ok(1)
  by (simp add: get_all_holders_def caching_analyzer_def warm_db_def db_get_def Let_def)

lemma twelve_report:
  "concentration_report twelve_holders =
     Inr \<lparr>total_holders = 12, total_supply = 78,
          top10_holders =
            [(''0x02'', 12, 1200 / 78), (''0x06'', 11, 1100 / 78), (''0x09'', 10, 1000 / 78),
             (''0x04'', 9, 900 / 78), (''0x0b'', 8, 800 / 78), (''0x07'', 7, 700 / 78),
             (''0x0c'', 6, 600 / 78), (''0x01'', 5, 500 / 78), (''0x0a'', 4, 400 / 78),
             (''0x05'', 3, 300 / 78)],
          top10_percentage = 7500 / 78, score = 0, risk_level = ''extreme_risk'',
          error = None\<rparr>"
  by (simp add: concentration_report_def twelve_holders_def Let_def
      holder_calculate_score_def determine_risk_level_def)

lemma silent_holders:
  "get_all_holders silent_holder_analyzer sorted_list_of_set token 0 (Some 100) (Map.empty, [])
     = Some (Inr [], Map.empty, [(0, 100)])"
  by (simp add: get_all_holders_def fetch_all_holders_def silent_holder_analyzer_def
      silent_client_def capped_client_def ContractReader_def scan_loop.simps scan_batch_def
      get_transfer_events_def BATCH_SIZE_def Let_def)

text \<open>
  Claim C6. For every holder dictionary that is not empty, with the non-zero balances
  that \<^verbatim>\<open>get_all_holders\<close> delivers, \<^verbatim>\<open>analyze_holder_concentration\<close> returns a
  report whose \<open>top10_percentage\<close> is the sum of the balances of the first 10 entries
  (all of them when there are fewer) of the holders rearranged in descending order of
  balance, divided by the sum of all holder balances, times 100. The divisor is that
  observed sum, which is positive and is the \<open>total_supply\<close> of the report; the
  \<^verbatim>\<open>totalSupply()\<close> of the contract is never read: whatever that call would answer,
  the result is the same.
\<close>

theorem top10_percentage_of_observed_supply:
  assumes "holders \<noteq> []" and "holders_ok holders"
    and "get_all_holders self iteration token_address from_block to_block \<sigma> = Some (Inr holders, \<sigma>')"
  shows "\<exists>report sorted_holders.
           analyze_holder_concentration self iteration token_address from_block to_block \<sigma>
             = Some (Inr report, \<sigma>')
         \<and> mset sorted_holders = mset holders
         \<and> sorted_wrt (\<lambda>x y. snd y \<le> snd x) sorted_holders
         \<and> 0 < sum_list (map snd holders)
         \<and> total_supply report = sum_list (map snd holders)
         \<and> top10_percentage report
             = of_int (sum_list (map snd (take 10 sorted_holders)))
                 / of_int (sum_list (map snd holders)) * 100
         \<and> analyze_holder_concentration
               (self\<lparr>holder_client := (holder_client self)\<lparr>call_totalSupply := declared\<rparr>\<rparr>)
               iteration token_address from_block to_block \<sigma>
             = Some (Inr report, \<sigma>')"
proof -
  have pos: "0 < sum_list (map snd holders)" using assms by (simp add: holders_ok_sum_pos)
  let ?s = "sort_key (\<lambda>x. - snd x) holders"
  obtain report where r: "concentration_report holders = Inr report"
    "total_supply report = sum_list (map snd holders)"
    "top10_percentage report
       = of_int (sum_list (map snd (take 10 ?s))) / of_int (sum_list (map snd holders)) * 100"
    using assms(1) pos by (simp add: concentration_report_def Let_def)
  have "analyze_holder_concentration self iteration token_address from_block to_block \<sigma>
          = Some (Inr report, \<sigma>')"
    using assms(3) r(1) by (simp add: analyze_holder_concentration_def)
  with r pos sort_desc [of holders] show ?thesis
    by (intro exI [of _ report] exI [of _ ?s]) (simp add: ignores_total_supply)
qed

theorem top10_percentage_of_observed_supply_witness:
  "twelve_holders \<noteq> [] \<and> holders_ok twelve_holders
   \<and> get_all_holders caching_analyzer sorted_list_of_set token 0 None (warm_db, [])
       = Some (Inr twelve_holders, warm_db, [])
   \<and> (\<exists>report.
         analyze_holder_concentration caching_analyzer sorted_list_of_set token 0 None
           (warm_db, []) = Some (Inr report, warm_db, [])
       \<and> total_supply report = 78 \<and> top10_percentage report = 7500 / 78)"
proof -
  from top10_percentage_of_observed_supply [OF twelve_ok twelve_hit]
  obtain report where r:
    "analyze_holder_concentration caching_analyzer sorted_list_of_set token 0 None
       (warm_db, []) = Some (Inr report, warm_db, [])"
    by blast
  then have "concentration_report twelve_holders = Inr report"
    by (simp add: analyze_holder_concentration_def twelve_hit)
  then have "total_supply report = 78 \<and> top10_percentage report = 7500 / 78"
    by (auto simp: twelve_report)
  with r twelve_ok twelve_hit show ?thesis by blast
qed


section \<open>UniqueEOAAnalyzer\<close>

text \<open>
  Modelled from the spec: the cache of classifications, a \<^verbatim>\<open>SimpleDB\<close> as above
  with boolean values. \<^verbatim>\<open>UniqueEOAAnalyzer\<close> holds a cache or \<^verbatim>\<open>None\<close>; the
  cache is mutable and travels with the state of the world.
\<close>

type_synonym eoa_cache = "string \<rightharpoonup> bool"

record ('w, 'l) unique_eoa_analyzer =
  eoa_client :: "('w, 'l) web3_client"

text \<open>
  \<^verbatim>\<open>is_eoa\<close>: a cached answer, found under the lower-cased address, is returned;
  otherwise the client is asked whether the address is a contract, which may raise,
  and the answer is stored. An existing cache object counts as true in
  \<^verbatim>\<open>if self.cache\<close>.
\<close>

definition is_eoa
  :: "('w, 'l) unique_eoa_analyzer \<Rightarrow> string \<Rightarrow> eoa_cache option \<times> 'w
      \<Rightarrow> (exn + bool) \<times> eoa_cache option \<times> 'w" where
  "is_eoa self address \<sigma> =
     (case \<sigma> of (cache, w) \<Rightarrow>
        let cache_key = ''is_eoa_'' @ lower address
        in case (case cache of Some db \<Rightarrow> db cache_key | None \<Rightarrow> None) of
             Some cached \<Rightarrow> (Inr cached, cache, w)
           | None \<Rightarrow>
               (case is_contract (eoa_client self) address w of
                  (Inl e, w') \<Rightarrow> (Inl e, cache, w')
                | (Inr is_contract', w') \<Rightarrow>
                    let result = \<not> is_contract'
                    in (Inr result,
                        (case cache of Some db \<Rightarrow> Some (db(cache_key \<mapsto> result))
                                     | None \<Rightarrow> None),
                        w')))"

text \<open>
  The three sets of the loop over the events, and the loop: both ends of every event
  join \<open>all_addrs\<close> (the variable \<^verbatim>\<open>all_addresses\<close> of this method, the zero address
  included) and, as classified, the EOA set or the contract set. An exception of the
  classifier leaves the loop.
\<close>

record address_sets =
  all_addrs :: "string set"
  eoa_addresses :: "string set"
  contract_addresses :: "string set"

fun classify_events
  :: "('w, 'l) unique_eoa_analyzer \<Rightarrow> transfer_event list \<Rightarrow> address_sets
      \<Rightarrow> eoa_cache option \<times> 'w \<Rightarrow> (exn + address_sets) \<times> eoa_cache option \<times> 'w" where
  "classify_events self [] sets \<sigma> = (Inr sets, \<sigma>)"
| "classify_events self (event # events) sets \<sigma> =
     (let from_addr = ev_from event;
          to_addr = ev_to event;
          sets = sets\<lparr>all_addrs := insert to_addr (insert from_addr (all_addrs sets))\<rparr>
      in case is_eoa self from_addr \<sigma> of
           (Inl e, \<sigma>1) \<Rightarrow> (Inl e, \<sigma>1)
         | (Inr from_is_eoa, \<sigma>1) \<Rightarrow>
             let sets = (if from_is_eoa
                         then sets\<lparr>eoa_addresses := insert from_addr (eoa_addresses sets)\<rparr>
                         else sets\<lparr>contract_addresses := insert from_addr (contract_addresses sets)\<rparr>)
             in case is_eoa self to_addr \<sigma>1 of
                  (Inl e, \<sigma>2) \<Rightarrow> (Inl e, \<sigma>2)
                | (Inr to_is_eoa, \<sigma>2) \<Rightarrow>
                    classify_events self events
                      (if to_is_eoa
                       then sets\<lparr>eoa_addresses := insert to_addr (eoa_addresses sets)\<rparr>
                       else sets\<lparr>contract_addresses := insert to_addr (contract_addresses sets)\<rparr>)
                      \<sigma>2)"

text \<open>
  The dictionary that \<^verbatim>\<open>analyze_transfer_events\<close> returns. \<open>contract_addresses_count\<close>,
  \<open>eoa_score\<close> and \<open>eoa_risk_level\<close> are its keys \<^verbatim>\<open>"contract_addresses"\<close>,
  \<^verbatim>\<open>"score"\<close> and \<^verbatim>\<open>"risk_level"\<close>. \<^verbatim>\<open>unique_eoa_list\<close> is a list made of a
  set, in no specified order, and is kept as the set. The keys that the result for no
  events lacks are optional; the key \<^verbatim>\<open>"blocks_analyzed"\<close>, a formatted text of the
  two block arguments, is left out.
\<close>

record eoa_report =
  unique_eoa_count :: nat
  unique_eoa_list :: "string set"
  total_addresses :: nat
  contract_addresses_count :: nat
  eoa_percentage :: "real option"
  eoa_score :: real
  eoa_risk_level :: string
  message :: "string option"
  time_window_hours :: "int option"
  events_count :: "nat option"

text \<open>
  \<^verbatim>\<open>analyze_transfer_events\<close>, as the set of the outcomes a call may have (the score
  is rounded, see \<open>nearest_hundredths\<close>): the terminal result for no events, or the
  classification of all participants and the score of the number of EOAs.
\<close>

definition analyze_transfer_events
  :: "('w, 'l) unique_eoa_analyzer \<Rightarrow> string \<Rightarrow> int \<Rightarrow> int option \<Rightarrow> int
      \<Rightarrow> eoa_cache option \<times> 'w \<Rightarrow> ((exn + eoa_report) \<times> eoa_cache option \<times> 'w) set" where
  "analyze_transfer_events self token_address from_block to_block time_window \<sigma> =
     (case \<sigma> of (cache, w) \<Rightarrow>
        case ContractReader (eoa_client self) token_address of
          Inl e \<Rightarrow> {(Inl e, cache, w)}
        | Inr reader \<Rightarrow>
            (case get_transfer_events reader from_block to_block w of
               (Inl e, w1) \<Rightarrow> {(Inl e, cache, w1)}
             | (Inr events, w1) \<Rightarrow>
                 if events = [] then
                   {(Inr \<lparr>unique_eoa_count = 0, unique_eoa_list = {}, total_addresses = 0,
                          contract_addresses_count = 0, eoa_percentage = None, eoa_score = 0,
                          eoa_risk_level = ''high_risk'',
                          message = Some ''No transfer events found'',
                          time_window_hours = None, events_count = None\<rparr>, cache, w1)}
                 else
                   (case classify_events self events
                           \<lparr>all_addrs = {}, eoa_addresses = {}, contract_addresses = {}\<rparr>
                           (cache, w1) of
                      (Inl e, \<sigma>2) \<Rightarrow> {(Inl e, \<sigma>2)}
                    | (Inr sets, \<sigma>2) \<Rightarrow>
                        let unique_eoa_count = card (eoa_addresses sets)
                        in (\<lambda>res. case res of
                              Inl e \<Rightarrow> (Inl e, \<sigma>2)
                            | Inr (score', risk_level') \<Rightarrow>
                                (Inr \<lparr>unique_eoa_count = unique_eoa_count,
                                      unique_eoa_list = eoa_addresses sets,
                                      total_addresses = card (all_addrs sets),
                                      contract_addresses_count = card (contract_addresses sets),
                                      eoa_percentage =
                                        Some (if all_addrs sets \<noteq> {}
                                              then real unique_eoa_count
                                                     / real (card (all_addrs sets)) * 100
                                              else 0),
                                      eoa_score = score', eoa_risk_level = risk_level',
                                      message = None,
                                      time_window_hours = Some time_window,
                                      events_count = Some (length events)\<rparr>, \<sigma>2))
                           ` eoa_calculate_score (int unique_eoa_count) time_window)))"

text \<open>The participants of a list of events: all senders and all recipients.\<close>

definition participants :: "transfer_event list \<Rightarrow> string set" where
  "participants events = ev_from ` set events \<union> ev_to ` set events"

text \<open>
  A cache agrees with a classification \<open>f\<close> when every answer it holds for an address
  is \<open>f\<close> of that address.
\<close>

definition cache_agrees :: "(string \<Rightarrow> bool) \<Rightarrow> eoa_cache option \<times> 'w \<Rightarrow> bool" where
  "cache_agrees f \<sigma> =
     (\<forall>db a v. fst \<sigma> = Some db \<longrightarrow> db (''is_eoa_'' @ lower a) = Some v \<longrightarrow> v = f a)"

text \<open>
  The silent client seen by the EOA analyzer; and a client on which \<open>bob\<close> is a
  contract and every other address an EOA, with the three events of the capped client.
\<close>

definition silent_eoa_analyzer :: "((int \<times> int) list, transfer_event) unique_eoa_analyzer" where
  "silent_eoa_analyzer = \<lparr>eoa_client = silent_client\<rparr>"

definition mixed_client :: "((int \<times> int) list, transfer_event) web3_client" where
  "mixed_client = capped_client\<lparr>is_contract := (\<lambda>a w. (Inr (lower a = lower bob), w))\<rparr>"

definition mixed_eoa_analyzer :: "((int \<times> int) list, transfer_event) unique_eoa_analyzer" where
  "mixed_eoa_analyzer = \<lparr>eoa_client = mixed_client\<rparr>"

definition three_events :: "transfer_event list" where
  "three_events =
     [\<lparr>block_number = 0, transaction_hash = ''0x01'',
       ev_from = ZERO_ADDRESS, ev_to = alice, ev_value = 5\<rparr>,
      \<lparr>block_number = 0, transaction_hash = ''0x02'',
       ev_from = alice, ev_to = bob, ev_value = 3\<rparr>,
      \<lparr>block_number = 0, transaction_hash = ''0x03'',
       ev_from = bob, ev_to = ZERO_ADDRESS, ev_value = 3\<rparr>]"

lemma classify_events_partition:
  assumes "I \<sigma>"
    and "\<forall>a s. I s \<longrightarrow> fst (is_eoa self a s) = Inr (f a) \<and> I (snd (is_eoa self a s))"
    and "eoa_addresses sets = {a \<in> all_addrs sets. f a}"
    and "contract_addresses sets = {a \<in> all_addrs sets. \<not> f a}"
  shows "\<exists>sets' \<sigma>'. classify_events self events sets \<sigma> = (Inr sets', \<sigma>') \<and> I \<sigma>'
           \<and> all_addrs sets' = all_addrs sets \<union> participants events
           \<and> eoa_addresses sets' = {a \<in> all_addrs sets'. f a}
           \<and> contract_addresses sets' = {a \<in> all_addrs sets'. \<not> f a}"
  using assms(1,3,4)
proof (induction events arbitrary: sets \<sigma>)
  case Nil
  then show ?case by (simp add: participants_def)
next
  case (Cons event events)
  obtain \<sigma>1 where s1: "is_eoa self (ev_from event) \<sigma> = (Inr (f (ev_from event)), \<sigma>1)" "I \<sigma>1"
    using assms(2) Cons.prems(1) by (metis prod.collapse)
  obtain \<sigma>2 where s2: "is_eoa self (ev_to event) \<sigma>1 = (Inr (f (ev_to event)), \<sigma>2)" "I \<sigma>2"
    using assms(2) s1(2) by (metis prod.collapse)
  let ?s0 = "sets\<lparr>all_addrs := insert (ev_to event) (insert (ev_from event) (all_addrs sets))\<rparr>"
  let ?s1 = "if f (ev_from event)
             then ?s0\<lparr>eoa_addresses := insert (ev_from event) (eoa_addresses ?s0)\<rparr>
             else ?s0\<lparr>contract_addresses := insert (ev_from event) (contract_addresses ?s0)\<rparr>"
  let ?s2 = "if f (ev_to event)
             then ?s1\<lparr>eoa_addresses := insert (ev_to event) (eoa_addresses ?s1)\<rparr>
             else ?s1\<lparr>contract_addresses := insert (ev_to event) (contract_addresses ?s1)\<rparr>"
  have step: "classify_events self (event # events) sets \<sigma> = classify_events self events ?s2 \<sigma>2"
    using s1(1) s2(1) by (simp add: Let_def)
  have a: "all_addrs ?s2 = insert (ev_to event) (insert (ev_from event) (all_addrs sets))"
    by simp
  have e: "eoa_addresses ?s2 = {a \<in> all_addrs ?s2. f a}"
    using Cons.prems(2) by auto
  have c: "contract_addresses ?s2 = {a \<in> all_addrs ?s2. \<not> f a}"
    using Cons.prems(3) by auto
  from Cons.IH [OF s2(2) e c] obtain sets' \<sigma>' where
    r: "classify_events self events ?s2 \<sigma>2 = (Inr sets', \<sigma>')" "I \<sigma>'"
       "all_addrs sets' = all_addrs ?s2 \<union> participants events"
       "eoa_addresses sets' = {a \<in> all_addrs sets'. f a}"
       "contract_addresses sets' = {a \<in> all_addrs sets'. \<not> f a}"
    by blast
  have "all_addrs sets' = all_addrs sets \<union> participants (event # events)"
    unfolding r(3) a by (auto simp: participants_def)
  with r step show ?case by (metis (no_types, lifting))
qed

lemma is_eoa_function:
  assumes g: "\<forall>a w. fst (is_contract (eoa_client self) a w) = Inr (g a)"
    and lo: "\<forall>a b. lower a = lower b \<longrightarrow> g a = g b"
    and inv: "cache_agrees (\<lambda>a. \<not> g a) s"
  shows "fst (is_eoa self a s) = Inr (\<not> g a) \<and> cache_agrees (\<lambda>a. \<not> g a) (snd (is_eoa self a s))"
proof -
  obtain cache w where s: "s = (cache, w)" by (cases s)
  obtain r w' where rw: "is_contract (eoa_client self) a w = (r, w')"
    by (cases "is_contract (eoa_client self) a w")
  with g [rule_format, of a w] have c: "is_contract (eoa_client self) a w = (Inr (g a), w')"
    by simp
  show ?thesis
  proof (cases cache)
    case None
    then have "is_eoa self a s = (Inr (\<not> g a), None, w')"
      using s c by (simp add: is_eoa_def Let_def)
    then show ?thesis by (simp add: cache_agrees_def)
  next
    case (Some db)
    note cache = this
    show ?thesis
    proof (cases "db (''is_eoa_'' @ lower a)")
      case (Some v)
      from inv s cache Some have "v = (\<not> g a)"
        unfolding cache_agrees_def by (metis fst_conv)
      moreover have "is_eoa self a s = (Inr v, cache, w)"
        using s cache Some by (simp add: is_eoa_def Let_def)
      ultimately show ?thesis using inv s by simp
    next
      case None
      let ?db = "db(''is_eoa_'' @ lower a \<mapsto> \<not> g a)"
      have res: "is_eoa self a s = (Inr (\<not> g a), Some ?db, w')"
        using s cache None c by (simp add: is_eoa_def Let_def)
      have "cache_agrees (\<lambda>a. \<not> g a) (Some ?db, w')"
        unfolding cache_agrees_def
      proof (intro allI impI)
        fix db' b v
        assume d: "fst (Some ?db, w') = Some db'" and l: "db' (''is_eoa_'' @ lower b) = Some v"
        from d have db': "db' = ?db" by simp
        show "v = (\<not> g b)"
        proof (cases "lower b = lower a")
          case True
          with l db' have "v = (\<not> g a)" by simp
          with lo True show ?thesis by metis
        next
          case False
          with l db' have "db (''is_eoa_'' @ lower b) = Some v" by simp
          with inv s cache show ?thesis unfolding cache_agrees_def by (metis fst_conv)
        qed
      qed
      with res show ?thesis by simp
    qed
  qed
qed

lemma silent_events:
  "ContractReader (eoa_client silent_eoa_analyzer) token
     = Inr \<lparr>client = silent_client, contract_address = token\<rparr>"
  "get_transfer_events \<lparr>client = silent_client, contract_address = token\<rparr> 0 (Some 100) []
     = (Inr [], [(0, 100)])"
  by (simp_all add: silent_eoa_analyzer_def silent_client_def capped_client_def
      ContractReader_def get_transfer_events_def)

lemma mixed_events:
  "ContractReader (eoa_client mixed_eoa_analyzer) token
     = Inr \<lparr>client = mixed_client, contract_address = token\<rparr>"
  "get_transfer_events \<lparr>client = mixed_client, contract_address = token\<rparr> 0 (Some 400) []
     = (Inr three_events, [(0, 400)])"
  by (simp_all add: mixed_eoa_analyzer_def mixed_client_def capped_client_def
      ContractReader_def get_transfer_events_def three_events_def)

lemma three_participants: "participants three_events = {ZERO_ADDRESS, alice, bob}"
  by (auto simp: participants_def three_events_def)

lemma determine_risk_level_known: "determine_risk_level p \<noteq> ''unknown''"
  by (simp add: determine_risk_level_def)

lemma eoa_calculate_score_nonempty: "eoa_calculate_score e h \<noteq> {}"
  by (simp add: eoa_calculate_score_def Let_def nearest_hundredths_nonempty
      del: nearest_hundredths_numeral)

lemma eoa_calculate_score_returns:
  assumes "0 < h" "real c < 2 ^ 1024 - 2 ^ 970" "res \<in> eoa_calculate_score (int c) h"
  shows "\<exists>s r. res = Inr (s, r)"
proof -
  have "real c / real_of_int h \<le> real c"
    using assms(1) by (simp add: divide_le_eq mult_le_cancel_left1)
  then have "\<bar>normalized (int c) h\<bar> < 2 ^ 1024 - 2 ^ 970"
    using assms(1,2) by simp
  with assms(1,3) show ?thesis
    by (auto simp: eoa_calculate_score_eq)
qed

lemma card_participants: "card (participants events) \<le> 2 * length events"
proof -
  have "card (participants events) \<le> card (ev_from ` set events) + card (ev_to ` set events)"
    unfolding participants_def by (rule card_Un_le)
  also have "\<dots> \<le> card (set events) + card (set events)"
    by (intro add_mono card_image_le) simp_all
  also have "\<dots> \<le> 2 * length events"
    using card_length [of events] by simp
  finally show ?thesis .
qed

text \<open>
  Claim C10. For every list of events that is not empty and every classifier that is a
  function \<open>f\<close> of the address (in every state that the analysis can reach,
  \<^verbatim>\<open>is_eoa\<close> answers \<open>f\<close> of the address and does not raise), the loop of
  \<^verbatim>\<open>analyze_transfer_events\<close> ends with an EOA set and a contract set that are
  disjoint and whose union is the set of all participants: the EOA set is the
  participants that \<open>f\<close> accepts, the contract set those it rejects. So the two
  counts add up to the number of participants, which is not 0; and every report that
  the call returns has \<open>unique_eoa_count + contract_addresses = total_addresses\<close>, a
  non-zero divisor \<open>total_addresses\<close> of \<open>eoa_percentage\<close>, and that quotient times
  100 as \<open>eoa_percentage\<close>. The call returns a report whenever the time window is
  positive.
\<close>

theorem eoa_contract_partition:
  assumes "events \<noteq> []" and "I (cache, w1)"
    and "\<forall>a s. I s \<longrightarrow> fst (is_eoa self a s) = Inr (f a) \<and> I (snd (is_eoa self a s))"
    and "ContractReader (eoa_client self) token_address = Inr reader"
    and "get_transfer_events reader from_block to_block w = (Inr events, w1)"
  shows "\<exists>sets \<sigma>'.
           classify_events self events
             \<lparr>all_addrs = {}, eoa_addresses = {}, contract_addresses = {}\<rparr> (cache, w1)
             = (Inr sets, \<sigma>')
         \<and> eoa_addresses sets \<inter> contract_addresses sets = {}
         \<and> eoa_addresses sets \<union> contract_addresses sets = all_addrs sets
         \<and> all_addrs sets = participants events
         \<and> eoa_addresses sets = {a \<in> participants events. f a}
         \<and> contract_addresses sets = {a \<in> participants events. \<not> f a}
         \<and> card (eoa_addresses sets) + card (contract_addresses sets) = card (all_addrs sets)
         \<and> 0 < card (all_addrs sets)
         \<and> analyze_transfer_events self token_address from_block to_block time_window (cache, w)
             \<noteq> {}
         \<and> (\<forall>out \<in> analyze_transfer_events self token_address from_block to_block time_window
                       (cache, w).
               snd out = \<sigma>'
             \<and> (\<forall>report. fst out = Inr report \<longrightarrow>
                   unique_eoa_count report = card (eoa_addresses sets)
                 \<and> contract_addresses_count report = card (contract_addresses sets)
                 \<and> total_addresses report = card (all_addrs sets)
                 \<and> unique_eoa_count report + contract_addresses_count report
                     = total_addresses report
                 \<and> 0 < total_addresses report
                 \<and> eoa_percentage report
                     = Some (real (unique_eoa_count report) / real (total_addresses report) * 100))
             \<and> (0 < time_window \<and> real (2 * length events) < 2 ^ 1024 - 2 ^ 970 \<longrightarrow>
                   (\<exists>report. fst out = Inr report)))"
proof -
  let ?s0 = "\<lparr>all_addrs = {}, eoa_addresses = {}, contract_addresses = {}\<rparr>"
  obtain sets \<sigma>' where c: "classify_events self events ?s0 (cache, w1) = (Inr sets, \<sigma>')"
    and a: "all_addrs sets = participants events"
    and e: "eoa_addresses sets = {a \<in> all_addrs sets. f a}"
    and k: "contract_addresses sets = {a \<in> all_addrs sets. \<not> f a}"
    using classify_events_partition [OF assms(2,3), of ?s0 events] by auto
  have fin: "finite (all_addrs sets)" unfolding a participants_def by simp
  have ne: "all_addrs sets \<noteq> {}"
    using assms(1) unfolding a participants_def by (cases events) auto
  have disj: "eoa_addresses sets \<inter> contract_addresses sets = {}" using e k by auto
  have un: "eoa_addresses sets \<union> contract_addresses sets = all_addrs sets" using e k by auto
  have fe: "finite (eoa_addresses sets)" "finite (contract_addresses sets)"
    using fin e k by simp_all
  have sum: "card (eoa_addresses sets) + card (contract_addresses sets) = card (all_addrs sets)"
    using card_Un_disjoint [OF fe disj] un by simp
  have pos: "0 < card (all_addrs sets)" using fin ne by (simp add: card_gt_0_iff)
  have le: "card (eoa_addresses sets) \<le> 2 * length events"
  proof -
    have "eoa_addresses sets \<subseteq> all_addrs sets" using un by blast
    then have "card (eoa_addresses sets) \<le> card (all_addrs sets)"
      using fin by (rule card_mono [rotated])
    with card_participants [of events] show ?thesis unfolding a by linarith
  qed
  let ?mk = "\<lambda>res. case res of
        Inl e \<Rightarrow> (Inl e, \<sigma>')
      | Inr (score', risk_level') \<Rightarrow>
          (Inr \<lparr>unique_eoa_count = card (eoa_addresses sets),
                unique_eoa_list = eoa_addresses sets,
                total_addresses = card (all_addrs sets),
                contract_addresses_count = card (contract_addresses sets),
                eoa_percentage =
                  Some (if all_addrs sets \<noteq> {}
                        then real (card (eoa_addresses sets))
                               / real (card (all_addrs sets)) * 100
                        else 0),
                eoa_score = score', eoa_risk_level = risk_level',
                message = None, time_window_hours = Some time_window,
                events_count = Some (length events)\<rparr>, \<sigma>')"
  have an: "analyze_transfer_events self token_address from_block to_block time_window (cache, w)
      = ?mk ` eoa_calculate_score (int (card (eoa_addresses sets))) time_window"
    using assms(1,4,5) c by (simp add: analyze_transfer_events_def Let_def)
  have out: "snd out = \<sigma>'
      \<and> (\<forall>report. fst out = Inr report \<longrightarrow>
            unique_eoa_count report = card (eoa_addresses sets)
          \<and> contract_addresses_count report = card (contract_addresses sets)
          \<and> total_addresses report = card (all_addrs sets)
          \<and> unique_eoa_count report + contract_addresses_count report = total_addresses report
          \<and> 0 < total_addresses report
          \<and> eoa_percentage report
              = Some (real (unique_eoa_count report) / real (total_addresses report) * 100))
      \<and> (0 < time_window \<and> real (2 * length events) < 2 ^ 1024 - 2 ^ 970 \<longrightarrow>
            (\<exists>report. fst out = Inr report))"
    if "out \<in> analyze_transfer_events self token_address from_block to_block time_window (cache, w)"
    for out
  proof -
    from that obtain res where res: "res \<in> eoa_calculate_score (int (card (eoa_addresses sets))) time_window"
      "out = ?mk res" unfolding an by blast
    have ret: "\<exists>s r. res = Inr (s, r)"
      if "0 < time_window" "real (2 * length events) < 2 ^ 1024 - 2 ^ 970"
    proof -
      have "real (card (eoa_addresses sets)) \<le> real (2 * length events)"
        using le by (simp only: of_nat_le_iff)
      with that(2) have "real (card (eoa_addresses sets)) < 2 ^ 1024 - 2 ^ 970" by linarith
      with that(1) res(1) show ?thesis
        using eoa_calculate_score_returns [of time_window "card (eoa_addresses sets)" res]
        by simp
    qed
    show ?thesis
    proof (cases res)
      case (Inl e)
      with res(2) ret show ?thesis by auto
    next
      case (Inr p)
      with res(2) sum pos ne show ?thesis by (cases p) auto
    qed
  qed
  have nonempty: "analyze_transfer_events self token_address from_block to_block time_window (cache, w)
      \<noteq> {}"
    unfolding an by (simp add: eoa_calculate_score_nonempty)
  from c disj un a e k sum pos nonempty out show ?thesis
    by (intro exI [of _ sets] exI [of _ \<sigma>']) (simp add: a)
qed

theorem eoa_contract_partition_witness:
  "three_events \<noteq> []
   \<and> (\<exists>sets \<sigma>'.
         classify_events mixed_eoa_analyzer three_events
           \<lparr>all_addrs = {}, eoa_addresses = {}, contract_addresses = {}\<rparr>
           (Some Map.empty, [(0, 400)]) = (Inr sets, \<sigma>')
       \<and> eoa_addresses sets \<inter> contract_addresses sets = {}
       \<and> eoa_addresses sets \<union> contract_addresses sets = all_addrs sets
       \<and> all_addrs sets = {ZERO_ADDRESS, alice, bob}
       \<and> card (eoa_addresses sets) + card (contract_addresses sets) = 3)"
proof -
  let ?f = "\<lambda>a. \<not> lower a = lower bob"
  have ne: "three_events \<noteq> []" by (simp add: three_events_def)
  have i: "cache_agrees ?f (Some Map.empty, [(0, 400) :: int \<times> int])"
    by (simp add: cache_agrees_def)
  have h: "\<forall>a s. cache_agrees ?f s \<longrightarrow>
             fst (is_eoa mixed_eoa_analyzer a s) = Inr (?f a)
             \<and> cache_agrees ?f (snd (is_eoa mixed_eoa_analyzer a s))"
    by (intro allI impI is_eoa_function)
       (simp_all add: mixed_eoa_analyzer_def mixed_client_def)
  have c3: "card {ZERO_ADDRESS, alice, bob} = 3"
    by (simp add: ZERO_ADDRESS_def alice_def bob_def)
  from eoa_contract_partition [OF ne i h mixed_events, of 1]
  obtain sets \<sigma>' where r:
    "classify_events mixed_eoa_analyzer three_events
       \<lparr>all_addrs = {}, eoa_addresses = {}, contract_addresses = {}\<rparr>
       (Some Map.empty, [(0, 400)]) = (Inr sets, \<sigma>')"
    "eoa_addresses sets \<inter> contract_addresses sets = {}"
    "eoa_addresses sets \<union> contract_addresses sets = all_addrs sets"
    "all_addrs sets = participants three_events"
    "card (eoa_addresses sets) + card (contract_addresses sets) = card (all_addrs sets)"
    by blast
  from r(4,5) have "all_addrs sets = {ZERO_ADDRESS, alice, bob}"
    "card (eoa_addresses sets) + card (contract_addresses sets) = 3"
    by (simp_all only: three_participants c3)
  with r(1,2,3) ne show ?thesis by blast
qed

subsection \<open>The results for no holders and no events\<close>

text \<open>
  Claim C8, as the specification states it, fails in its second half: for no transfer
  events the risk level of the result is the text \<open>''high_risk''\<close>, not \<open>''high''\<close>.
  On the silent client the only outcome is the report below, and the same report with
  the risk level \<open>''high''\<close> is not an outcome.
\<close>

theorem no_events_risk_level_counterexample:
  "analyze_transfer_events silent_eoa_analyzer token 0 (Some 100) 1 (None, [])
     = {(Inr \<lparr>unique_eoa_count = 0, unique_eoa_list = {}, total_addresses = 0,
              contract_addresses_count = 0, eoa_percentage = None, eoa_score = 0,
              eoa_risk_level = ''high_risk'', message = Some ''No transfer events found'',
              time_window_hours = None, events_count = None\<rparr>, None, [(0, 100)])}
   \<and> (Inr \<lparr>unique_eoa_count = 0, unique_eoa_list = {}, total_addresses = 0,
              contract_addresses_count = 0, eoa_percentage = None, eoa_score = 0,
              eoa_risk_level = ''high'', message = Some ''No transfer events found'',
              time_window_hours = None, events_count = None\<rparr>, None, [(0, 100)])
       \<notin> analyze_transfer_events silent_eoa_analyzer token 0 (Some 100) 1 (None, [])"
  by (simp add: analyze_transfer_events_def silent_events)

text \<open>
  Claim C8, amended. When the holder dictionary is empty,
  \<^verbatim>\<open>analyze_holder_concentration\<close> returns exactly \<open>total_holders\<close> 0, score 0 and
  risk level \<open>''unknown''\<close>, with no supply, no top holders and the explanatory field
  \<open>error\<close>; this result is distinct from every result for holders, which has another
  risk level, no \<open>error\<close> field and a number of holders that is not 0. When the reader
  produces no transfer events, \<^verbatim>\<open>analyze_transfer_events\<close> returns exactly
  \<open>unique_eoa_count\<close> 0, score 0 and risk level \<open>''high_risk''\<close>, with the explanatory
  field \<open>message\<close>.
\<close>

theorem empty_results:
  "(get_all_holders self iteration token_address from_block to_block \<sigma> = Some (Inr [], \<sigma>') \<longrightarrow>
      analyze_holder_concentration self iteration token_address from_block to_block \<sigma>
        = Some (Inr \<lparr>total_holders = 0, total_supply = 0, top10_holders = [],
                     top10_percentage = 0, score = 0, risk_level = ''unknown'',
                     error = Some ''No holders found''\<rparr>, \<sigma>'))
   \<and> (get_all_holders self iteration token_address from_block to_block \<sigma>
         = Some (Inr holders, \<sigma>') \<and> holders \<noteq> []
       \<and> analyze_holder_concentration self iteration token_address from_block to_block \<sigma>
         = Some (Inr report, \<sigma>'') \<longrightarrow>
      risk_level report \<noteq> ''unknown'' \<and> error report = None \<and> total_holders report \<noteq> 0)
   \<and> (ContractReader (eoa_client eoa) token_address = Inr reader
       \<and> get_transfer_events reader from_block to_block w = (Inr [], w1) \<longrightarrow>
      analyze_transfer_events eoa token_address from_block to_block time_window (cache, w)
        = {(Inr \<lparr>unique_eoa_count = 0, unique_eoa_list = {}, total_addresses = 0,
                 contract_addresses_count = 0, eoa_percentage = None, eoa_score = 0,
                 eoa_risk_level = ''high_risk'',
                 message = Some ''No transfer events found'',
                 time_window_hours = None, events_count = None\<rparr>, cache, w1)})"
proof (intro conjI impI)
  assume "get_all_holders self iteration token_address from_block to_block \<sigma> = Some (Inr [], \<sigma>')"
  then show "analyze_holder_concentration self iteration token_address from_block to_block \<sigma>
        = Some (Inr \<lparr>total_holders = 0, total_supply = 0, top10_holders = [],
                     top10_percentage = 0, score = 0, risk_level = ''unknown'',
                     error = Some ''No holders found''\<rparr>, \<sigma>')"
    by (simp add: analyze_holder_concentration_def concentration_report_def)
next
  assume a: "get_all_holders self iteration token_address from_block to_block \<sigma>
         = Some (Inr holders, \<sigma>') \<and> holders \<noteq> []
       \<and> analyze_holder_concentration self iteration token_address from_block to_block \<sigma>
         = Some (Inr report, \<sigma>'')"
  then have "concentration_report holders = Inr report"
    by (auto simp: analyze_holder_concentration_def)
  with a have "risk_level report \<noteq> ''unknown'' \<and> error report = None \<and> total_holders report \<noteq> 0"
    by (auto simp: concentration_report_def Let_def determine_risk_level_known
        split: if_splits)
  then show "risk_level report \<noteq> ''unknown''" "error report = None" "total_holders report \<noteq> 0"
    by simp_all
next
  assume "ContractReader (eoa_client eoa) token_address = Inr reader
       \<and> get_transfer_events reader from_block to_block w = (Inr [], w1)"
  then show "analyze_transfer_events eoa token_address from_block to_block time_window (cache, w)
        = {(Inr \<lparr>unique_eoa_count = 0, unique_eoa_list = {}, total_addresses = 0,
                 contract_addresses_count = 0, eoa_percentage = None, eoa_score = 0,
                 eoa_risk_level = ''high_risk'',
                 message = Some ''No transfer events found'',
                 time_window_hours = None, events_count = None\<rparr>, cache, w1)}"
    by (simp add: analyze_transfer_events_def)
qed

theorem empty_results_witness:
  "get_all_holders silent_holder_analyzer sorted_list_of_set token 0 (Some 100) (Map.empty, [])
     = Some (Inr [], Map.empty, [(0, 100)])
   \<and> analyze_holder_concentration silent_holder_analyzer sorted_list_of_set token 0 (Some 100)
       (Map.empty, [])
     = Some (Inr \<lparr>total_holders = 0, total_supply = 0, top10_holders = [],
                  top10_percentage = 0, score = 0, risk_level = ''unknown'',
                  error = Some ''No holders found''\<rparr>, Map.empty, [(0, 100)])
   \<and> analyze_transfer_events silent_eoa_analyzer token 0 (Some 100) 1 (None, [])
     = {(Inr \<lparr>unique_eoa_count = 0, unique_eoa_list = {}, total_addresses = 0,
              contract_addresses_count = 0, eoa_percentage = None, eoa_score = 0,
              eoa_risk_level = ''high_risk'', message = Some ''No transfer events found'',
              time_window_hours = None, events_count = None\<rparr>, None, [(0, 100)])}"
  using empty_results [where self = silent_holder_analyzer
      and iteration = sorted_list_of_set and token_address = token and from_block = 0
      and to_block = "Some 100" and \<sigma> = "(Map.empty, [])"
      and \<sigma>' = "(Map.empty, [(0, 100)])" and eoa = silent_eoa_analyzer
      and reader = "\<lparr>client = silent_client, contract_address = token\<rparr>"
      and w = "[]" and ?w1.0 = "[(0, 100)]" and time_window = 1 and cache = None]
    silent_holders silent_events
  by simp

end
